theory Spec2Isabelle
  imports Main "HOL-Library.Word" "HOL-Library.Char_ord" "HOL-Library.List_Lexorder"
    "HOL-Library.Sublist"
begin

section \<open>Python values used by \<^verbatim>\<open>cert-lambda.py\<close>\<close>

text \<open>
  A Python \<^verbatim>\<open>str\<close> is modelled as a \<^typ>\<open>string\<close> whose characters are code points
  below 256; \<^verbatim>\<open>bytes\<close> are lists of 8-bit words. Python integers that the program
  handles here (key coordinates, signature components) are never negative and are
  natural numbers. JSON documents are the values that \<^verbatim>\<open>json.loads\<close> returns and
  \<^verbatim>\<open>json.dumps\<close> accepts: \<^verbatim>\<open>None\<close>, booleans, integers, strings, lists and
  dicts (in insertion order); floating-point numbers are left out.
\<close>

type_synonym byte = "8 word"

datatype json =
    JNull
  | JBool bool
  | JInt int
  | JStr string
  | JArr "json list"
  | JObj "(string \<times> json) list"

text \<open>
  Every \<^verbatim>\<open>raise\<close> of the program and every exception of the Python runtime and of the
  libraries that the modelled paths can meet is a value. The program itself only raises
  \<^verbatim>\<open>Exception(message)\<close>; one constructor per message keeps the message's parameters:
  \<^item> \<open>HttpFailure code body\<close>: \<^verbatim>\<open>Exception(f"HTTP {e.code}: {body}")\<close> in \<^verbatim>\<open>fetch_url\<close>;
  \<^item> \<open>AcmeError code body\<close>: \<^verbatim>\<open>Exception(f"ACME error {e.code}: {body}")\<close>;
  \<^item> \<open>UnsupportedKeyType\<close>: \<^verbatim>\<open>Exception("Unsupported key type")\<close>;
  \<^item> \<open>NoDns01Challenge\<close>: \<^verbatim>\<open>Exception("No DNS-01 challenge found")\<close>;
  \<^item> \<open>ChallengeFailed auth\<close>: \<^verbatim>\<open>Exception(f"Challenge failed: {auth}")\<close>;
  \<^item> \<open>ChallengeTimeout\<close>: \<^verbatim>\<open>Exception("Challenge validation timeout")\<close>;
  \<^item> \<open>OrderFailed order\<close>: \<^verbatim>\<open>Exception(f"Order failed: {order}")\<close>;
  \<^item> \<open>OrderTimeout\<close>: \<^verbatim>\<open>Exception("Order finalization timeout")\<close>.
\<close>

datatype error =
    HttpFailure nat string
  | AcmeError nat string
  | UnsupportedKeyType
  | NoDns01Challenge
  | ChallengeFailed json
  | ChallengeTimeout
  | OrderFailed json
  | OrderTimeout
  | KeyError string
  | IndexError
  | TypeError
  | AttributeError
  | OverflowError
  | ValueError
  | JSONDecodeError
  | URLError
  | ResourceNotFoundException
  | ClientError string

definition bindE :: "error + 'a \<Rightarrow> ('a \<Rightarrow> error + 'b) \<Rightarrow> error + 'b" where
  "bindE r f = (case r of Inl e \<Rightarrow> Inl e | Inr x \<Rightarrow> f x)"

subsection \<open>Subscripts, membership, iteration and truth on JSON values\<close>

primrec lookup :: "(string \<times> json) list \<Rightarrow> string \<Rightarrow> json option" where
  "lookup [] k = None"
| "lookup (kv # kvs) k = (if fst kv = k then Some (snd kv) else lookup kvs k)"

text \<open>\<^verbatim>\<open>obj[key]\<close> with a string key.\<close>

definition getitem :: "json \<Rightarrow> string \<Rightarrow> error + json" where
  "getitem obj k =
     (case obj of
        JObj kvs \<Rightarrow> (case lookup kvs k of None \<Rightarrow> Inl (KeyError k) | Some v \<Rightarrow> Inr v)
      | _ \<Rightarrow> Inl TypeError)"

text \<open>\<^verbatim>\<open>obj[0]\<close>: a dict from \<^verbatim>\<open>json.loads\<close> has string keys only.\<close>

definition getfirst :: "json \<Rightarrow> error + json" where
  "getfirst obj =
     (case obj of
        JArr xs \<Rightarrow> (case xs of [] \<Rightarrow> Inl IndexError | x # _ \<Rightarrow> Inr x)
      | JStr s \<Rightarrow> (case s of [] \<Rightarrow> Inl IndexError | c # _ \<Rightarrow> Inr (JStr [c]))
      | JObj kvs \<Rightarrow> Inl (KeyError ''0'')
      | _ \<Rightarrow> Inl TypeError)"

text \<open>\<^verbatim>\<open>key in obj\<close> with a string key.\<close>

definition contains :: "string \<Rightarrow> json \<Rightarrow> error + bool" where
  "contains k obj =
     (case obj of
        JObj kvs \<Rightarrow> Inr (lookup kvs k \<noteq> None)
      | JArr xs \<Rightarrow> Inr (JStr k \<in> set xs)
      | JStr s \<Rightarrow> Inr (sublist k s)
      | _ \<Rightarrow> Inl TypeError)"

text \<open>\<^verbatim>\<open>for c in obj\<close>: the items the loop visits.\<close>

definition iter :: "json \<Rightarrow> error + json list" where
  "iter obj =
     (case obj of
        JArr xs \<Rightarrow> Inr xs
      | JObj kvs \<Rightarrow> Inr (map (\<lambda>kv. JStr (fst kv)) kvs)
      | JStr s \<Rightarrow> Inr (map (\<lambda>c. JStr [c]) s)
      | _ \<Rightarrow> Inl TypeError)"

text \<open>\<^verbatim>\<open>obj.pop(key, None)\<close>: only a dict has the two-argument \<^verbatim>\<open>pop\<close>.\<close>

definition pop :: "string \<Rightarrow> json \<Rightarrow> error + json" where
  "pop k obj =
     (case obj of
        JObj kvs \<Rightarrow> Inr (JObj (filter (\<lambda>kv. fst kv \<noteq> k) kvs))
      | JArr xs \<Rightarrow> Inl TypeError
      | _ \<Rightarrow> Inl AttributeError)"

text \<open>Truth value of an optional string (\<^verbatim>\<open>if account_url:\<close>).\<close>

definition truthy :: "string option \<Rightarrow> bool" where
  "truthy v = (case v of None \<Rightarrow> False | Some s \<Rightarrow> s \<noteq> [])"

definition opt_json :: "string option \<Rightarrow> json" where
  "opt_json v = (case v of None \<Rightarrow> JNull | Some s \<Rightarrow> JStr s)"

subsection \<open>Strings\<close>

text \<open>\<^verbatim>\<open>sep.join(parts)\<close>.\<close>

fun join :: "string \<Rightarrow> string list \<Rightarrow> string" where
  "join sep [] = []"
| "join sep [x] = x"
| "join sep (x # y # ys) = x @ sep @ join sep (y # ys)"

text \<open>
  \<^verbatim>\<open>s.split(sep)\<close> for a non-empty separator: the occurrences of \<open>sep\<close> are found from
  the left and do not overlap. (Python raises \<^verbatim>\<open>ValueError\<close> for an empty separator;
  the program only splits on a constant.)
\<close>

function split_from :: "string \<Rightarrow> string \<Rightarrow> string \<Rightarrow> string list" where
  "split_from sep acc [] = [rev acc]"
| "split_from sep acc (c # cs) =
     (if sep \<noteq> [] \<and> prefix sep (c # cs)
      then rev acc # split_from sep [] (drop (length sep) (c # cs))
      else split_from sep (c # acc) cs)"
  by pat_completeness auto
termination
  by (relation "measure (\<lambda>(sep, acc, s). length s)") auto

definition str_split :: "string \<Rightarrow> string \<Rightarrow> string list" where
  "str_split sep s = split_from sep [] s"

text \<open>
  \<^verbatim>\<open>str.isspace\<close> on one character below 256: tab to carriage return, the four
  separators \<open>0x1c\<close> to \<open>0x1f\<close>, space, next-line and no-break space.
\<close>

definition isspace :: "char \<Rightarrow> bool" where
  "isspace c =
     (let n = (of_char c :: nat)
      in (9 \<le> n \<and> n \<le> 13) \<or> (28 \<le> n \<and> n \<le> 32) \<or> n = 133 \<or> n = 160)"

definition strip :: "string \<Rightarrow> string" where
  "strip s = rev (dropWhile isspace (rev (dropWhile isspace s)))"

text \<open>\<^verbatim>\<open>s.rstrip(chars)\<close>.\<close>

definition rstrip :: "string \<Rightarrow> string \<Rightarrow> string" where
  "rstrip chars s = rev (dropWhile (\<lambda>c. c \<in> set chars) (rev s))"

text \<open>\<^verbatim>\<open>s.startswith(p)\<close> is \<^const>\<open>prefix\<close>; \<^verbatim>\<open>s[7:]\<close> is \<^term>\<open>drop 7 s\<close>.\<close>

text \<open>\<^verbatim>\<open>s.lower()\<close> on one character below 256.\<close>

definition lower_char :: "char \<Rightarrow> char" where
  "lower_char c =
     (let n = (of_char c :: nat)
      in if (65 \<le> n \<and> n \<le> 90) \<or> (192 \<le> n \<and> n \<le> 222 \<and> n \<noteq> 215)
         then char_of (n + 32) else c)"

definition lower :: "string \<Rightarrow> string" where
  "lower s = map lower_char s"

text \<open>\<^verbatim>\<open>s.encode()\<close>: UTF-8, one byte below 128 and two bytes from 128 to 255.\<close>

definition encode_char :: "char \<Rightarrow> byte list" where
  "encode_char c =
     (let n = (of_char c :: nat)
      in if n < 128 then [of_nat n] else [of_nat (192 + n div 64), of_nat (128 + n mod 64)])"

definition encode :: "string \<Rightarrow> byte list" where
  "encode s = concat (map encode_char s)"

text \<open>\<^verbatim>\<open>str(n)\<close> for integers.\<close>

fun str_nat :: "nat \<Rightarrow> string" where
  "str_nat n = (if n < 10 then [char_of (48 + n)] else str_nat (n div 10) @ [char_of (48 + n mod 10)])"

declare str_nat.simps [simp del]

definition str_int :: "int \<Rightarrow> string" where
  "str_int i = (if i < 0 then CHR ''-'' # str_nat (nat (- i)) else str_nat (nat i))"

text \<open>
  \<^verbatim>\<open>n.to_bytes(length, 'big')\<close>: the big-endian digits in base 256;
  \<^verbatim>\<open>OverflowError\<close> when the number does not fit.
\<close>

fun be_bytes :: "nat \<Rightarrow> nat \<Rightarrow> byte list" where
  "be_bytes 0 n = []"
| "be_bytes (Suc k) n = be_bytes k (n div 256) @ [of_nat (n mod 256)]"

definition to_bytes :: "nat \<Rightarrow> nat \<Rightarrow> error + byte list" where
  "to_bytes len n = (if n < 256 ^ len then Inr (be_bytes len n) else Inl OverflowError)"

subsection \<open>\<^verbatim>\<open>json.dumps\<close>\<close>

definition hex_digit :: "nat \<Rightarrow> char" where
  "hex_digit d = ''0123456789abcdef'' ! d"

text \<open>
  With \<^verbatim>\<open>ensure_ascii\<close> (the default) every character outside space to tilde is
  escaped, as are the quote and the backslash.
\<close>

definition escape_char :: "char \<Rightarrow> string" where
  "escape_char c =
     (if c = CHR 0x22 then [CHR 0x5C, CHR 0x22]
      else if c = CHR 0x5C then [CHR 0x5C, CHR 0x5C]
      else if c = CHR 0x0A then [CHR 0x5C, CHR ''n'']
      else if c = CHR 0x0D then [CHR 0x5C, CHR ''r'']
      else if c = CHR 0x09 then [CHR 0x5C, CHR ''t'']
      else if c = CHR 0x08 then [CHR 0x5C, CHR ''b'']
      else if c = CHR 0x0C then [CHR 0x5C, CHR ''f'']
      else if (of_char c :: nat) < 32 \<or> 126 < (of_char c :: nat)
        then [CHR 0x5C, CHR ''u'', CHR ''0'', CHR ''0'',
              hex_digit (of_char c div 16), hex_digit (of_char c mod 16)]
      else [c])"

definition quote :: "string \<Rightarrow> string" where
  "quote s = [CHR 0x22] @ concat (map escape_char s) @ [CHR 0x22]"

text \<open>
  \<open>dumps sort_keys item_separator key_separator obj\<close>. The default call
  \<^verbatim>\<open>json.dumps(obj)\<close> is \<open>dumps False '', '' '': ''\<close>; the thumbprint's call
  \<^verbatim>\<open>json.dumps(obj, sort_keys=True, separators=(',', ':'))\<close> is \<open>dumps True '','' '':''\<close>.
  Sorting is by key, in code-point order.
\<close>

fun dumps :: "bool \<Rightarrow> string \<Rightarrow> string \<Rightarrow> json \<Rightarrow> string" where
  "dumps sk isep ksep JNull = ''null''"
| "dumps sk isep ksep (JBool b) = (if b then ''true'' else ''false'')"
| "dumps sk isep ksep (JInt i) = str_int i"
| "dumps sk isep ksep (JStr s) = quote s"
| "dumps sk isep ksep (JArr xs) = ''['' @ join isep (map (dumps sk isep ksep) xs) @ '']''"
| "dumps sk isep ksep (JObj kvs) =
     ''{'' @ join isep
        (map snd ((if sk then sort_key fst else id)
           (map (\<lambda>(k, v). (k, quote k @ ksep @ dumps sk isep ksep v)) kvs))) @ ''}''"

definition json_dumps :: "json \<Rightarrow> string" where
  "json_dumps obj = dumps False '', '' '': '' obj"

subsection \<open>\<^verbatim>\<open>base64.urlsafe_b64encode\<close>\<close>

definition b64_alphabet :: string where
  "b64_alphabet = ''ABCDEFGHIJKLMNOPQRSTUVWXYZabcdefghijklmnopqrstuvwxyz0123456789-_''"

definition b64_char :: "nat \<Rightarrow> char" where
  "b64_char i = b64_alphabet ! i"

text \<open>Three bytes give four characters; a last group of one or two bytes is padded with \<open>=\<close>.\<close>

fun urlsafe_b64encode :: "byte list \<Rightarrow> string" where
  "urlsafe_b64encode [] = []"
| "urlsafe_b64encode [a] =
     [b64_char (unat a div 4), b64_char (unat a mod 4 * 16), CHR ''='', CHR ''='']"
| "urlsafe_b64encode [a, b] =
     [b64_char (unat a div 4), b64_char (unat a mod 4 * 16 + unat b div 16),
      b64_char (unat b mod 16 * 4), CHR ''='']"
| "urlsafe_b64encode (a # b # c # r) =
     [b64_char (unat a div 4), b64_char (unat a mod 4 * 16 + unat b div 16),
      b64_char (unat b mod 16 * 4 + unat c div 64), b64_char (unat c mod 64)]
     @ urlsafe_b64encode r"

section \<open>The helpers of the program\<close>

text \<open>
  \<^verbatim>\<open>base64url_encode(data)\<close> (lines 361-365) takes a \<^verbatim>\<open>str\<close> or \<^verbatim>\<open>bytes\<close>:
  a string is encoded to bytes first.
\<close>

datatype data = Str string | Bytes "byte list"

definition base64url_encode :: "data \<Rightarrow> string" where
  "base64url_encode d =
     (let bs = (case d of Str s \<Rightarrow> encode s | Bytes b \<Rightarrow> b)
      in rstrip ''='' (urlsafe_b64encode bs))"

section \<open>The world outside the program\<close>

text \<open>
  A private key as the \<^verbatim>\<open>cryptography\<close> library hands it out: an elliptic-curve key
  with the affine coordinates of its public point, or a key of another kind (the stored
  PEM may hold any private key). The secret part is not modelled: signing, generation and
  serialisation belong to the library and are oracles of the environment.
\<close>

datatype key = ECKey nat nat | RSAKey nat nat

text \<open>
  What the program does to the outside world, in the order it does it. A signed ACME
  request records the arguments \<^verbatim>\<open>url\<close>, \<^verbatim>\<open>nonce\<close> and \<^verbatim>\<open>payload\<close> of
  \<^verbatim>\<open>acme_request\<close> beside the body that goes on the wire.
\<close>

datatype event =
    GetSecretValue string
  | PutSecretValue string string
  | Fetch string string
  | SignedPost string "string option" json string
  | ChangeRecordSets string string string string
  | GetChange string
  | Sleep nat

text \<open>
  \<^verbatim>\<open>urllib.request.urlopen\<close> returns a response (with its header lines, in order, and
  its decoded body), raises \<^verbatim>\<open>HTTPError\<close> for an error status, or fails below HTTP.
\<close>

datatype http_outcome =
    Response "(string \<times> string) list" string
  | HTTPError nat "(string \<times> string) list" string
  | Failed

text \<open>
  The environment. Pure library functions take their arguments; every call that reaches
  a service, the clock or a random source is an oracle over the history of events, the
  call itself included as the last event, so an answer may depend on everything the
  program has done so far. A \<^verbatim>\<open>get_secret_value\<close> whose answer has no
  \<^verbatim>\<open>SecretString\<close> is an \<open>Inl\<close> answer of the oracle.
\<close>

record env =
  environ :: "string \<Rightarrow> string option"
  cryptography_available :: bool
  json_loads :: "string \<Rightarrow> json option"
  sha256 :: "byte list \<Rightarrow> byte list"
  load_pem_private_key :: "byte list \<Rightarrow> key option"
  private_bytes :: "key \<Rightarrow> string"
  build_csr :: "key \<Rightarrow> string \<Rightarrow> byte list"
  not_valid_after :: "byte list \<Rightarrow> string option"
  generate_ec_key :: "event list \<Rightarrow> key"
  generate_rsa_key :: "event list \<Rightarrow> key"
  ecdsa_sign :: "event list \<Rightarrow> key \<Rightarrow> byte list \<Rightarrow> nat \<times> nat"
  urlopen :: "event list \<Rightarrow> http_outcome"
  get_secret_value :: "event list \<Rightarrow> error + string"
  put_secret_value :: "event list \<Rightarrow> error option"
  change_resource_record_sets :: "event list \<Rightarrow> error + string"
  get_change :: "event list \<Rightarrow> error + string"

subsection \<open>Sequencing with exceptions and a trace\<close>

text \<open>
  A statement takes the trace so far and returns a value or the exception it raised,
  with the trace extended by what it did. An exception ends the sequence; the trace
  stays.
\<close>

type_synonym 'a io = "event list \<Rightarrow> (error + 'a) \<times> event list"

definition ret :: "'a \<Rightarrow> 'a io" where
  "ret x tr = (Inr x, tr)"

definition raise :: "error \<Rightarrow> 'a io" where
  "raise e tr = (Inl e, tr)"

definition lift :: "error + 'a \<Rightarrow> 'a io" where
  "lift r tr = (r, tr)"

definition bnd :: "'a io \<Rightarrow> ('a \<Rightarrow> 'b io) \<Rightarrow> 'b io" where
  "bnd m f tr = (case m tr of (Inl e, tr') \<Rightarrow> (Inl e, tr') | (Inr x, tr') \<Rightarrow> f x tr')"

text \<open>\<^verbatim>\<open>try: m except: h\<close>.\<close>

definition catch :: "'a io \<Rightarrow> (error \<Rightarrow> 'a io) \<Rightarrow> 'a io" where
  "catch m h tr = (case m tr of (Inl e, tr') \<Rightarrow> h e tr' | (Inr x, tr') \<Rightarrow> (Inr x, tr'))"

text \<open>A call to the outside: the event is recorded, the oracle answers.\<close>

definition call :: "event \<Rightarrow> (event list \<Rightarrow> 'a) \<Rightarrow> 'a io" where
  "call ev oracle tr = (Inr (oracle (tr @ [ev])), tr @ [ev])"

text \<open>A value drawn from a random source: no event, the answer depends on the history.\<close>

definition draw :: "(event list \<Rightarrow> 'a) \<Rightarrow> 'a io" where
  "draw oracle tr = (Inr (oracle tr), tr)"

definition sleep :: "nat \<Rightarrow> unit io" where
  "sleep n tr = (Inr (), tr @ [Sleep n])"

text \<open>\<^verbatim>\<open>os.environ[name]\<close>.\<close>

definition environ_item :: "env \<Rightarrow> string \<Rightarrow> error + string" where
  "environ_item env name = (case environ env name of None \<Rightarrow> Inl (KeyError name) | Some v \<Rightarrow> Inr v)"

text \<open>\<^verbatim>\<open>json.loads(s)\<close>.\<close>

definition loads :: "env \<Rightarrow> string \<Rightarrow> error + json" where
  "loads env s = (case json_loads env s of None \<Rightarrow> Inl JSONDecodeError | Some v \<Rightarrow> Inr v)"

text \<open>
  The header lines of a response. \<^verbatim>\<open>response.headers.get(name)\<close> finds the first
  line whose name matches without regard to case; \<^verbatim>\<open>dict(response.headers)\<close> has one
  key per name as it was sent, each with the value \<^verbatim>\<open>get\<close> finds for it.
\<close>

definition message_get :: "(string \<times> string) list \<Rightarrow> string \<Rightarrow> string option" where
  "message_get hs name = map_of (map (\<lambda>(k, v). (lower k, v)) hs) (lower name)"

definition headers_dict :: "(string \<times> string) list \<Rightarrow> string \<Rightarrow> string option" where
  "headers_dict hs name = (if name \<in> set (map fst hs) then message_get hs name else None)"

section \<open>The program\<close>

subsection \<open>\<^verbatim>\<open>jwk_thumbprint\<close> (lines 368-389)\<close>

definition jwk_thumbprint :: "env \<Rightarrow> key \<Rightarrow> error + string" where
  "jwk_thumbprint env k =
     (case k of
        ECKey kx ky \<Rightarrow>
          bindE (to_bytes 32 kx) (\<lambda>x.
          bindE (to_bytes 32 ky) (\<lambda>y.
            let jwk = JObj [(''crv'', JStr ''P-256''), (''kty'', JStr ''EC''),
                            (''x'', JStr (base64url_encode (Bytes x))),
                            (''y'', JStr (base64url_encode (Bytes y)))];
                jwk_json = dumps True '','' '':'' jwk
            in Inr (base64url_encode (Bytes (sha256 env (encode jwk_json))))))
      | RSAKey n e \<Rightarrow> Inl UnsupportedKeyType)"

subsection \<open>\<^verbatim>\<open>fetch_url\<close> (lines 347-358)\<close>

text \<open>
  The program calls it with a \<^verbatim>\<open>GET\<close> for the body and with a \<^verbatim>\<open>HEAD\<close> for the
  headers; a URL that is not a string is refused before anything is sent.
\<close>

datatype fetched = Body string | Headers "string \<Rightarrow> string option"

definition fetch_url :: "env \<Rightarrow> json \<Rightarrow> string \<Rightarrow> bool \<Rightarrow> fetched io" where
  "fetch_url env url method return_headers =
     (case url of
        JStr u \<Rightarrow>
          bnd (call (Fetch method u) (urlopen env)) (\<lambda>out.
            case out of
              Response hs b \<Rightarrow> if return_headers then ret (Headers (headers_dict hs)) else ret (Body b)
            | HTTPError code hs b \<Rightarrow> raise (HttpFailure code b)
            | Failed \<Rightarrow> raise URLError)
      | _ \<Rightarrow> raise ValueError)"

subsection \<open>\<^verbatim>\<open>acme_request\<close> (lines 400-469)\<close>

text \<open>
  Lines 405-450: the flattened JWS for one request. The signature comes from the
  library (\<open>sig\<close> is the pair \<open>r\<close>, \<open>s\<close> decoded from it). A key without the coordinates
  \<^verbatim>\<open>x\<close> and \<^verbatim>\<open>y\<close> fails on the first attribute access.
\<close>

definition acme_protected :: "json \<Rightarrow> byte list \<Rightarrow> byte list \<Rightarrow> string option \<Rightarrow> string option \<Rightarrow> json" where
  "acme_protected url x y account_url nonce =
     (let jwk = JObj [(''crv'', JStr ''P-256''), (''kty'', JStr ''EC''),
                      (''x'', JStr (base64url_encode (Bytes x))),
                      (''y'', JStr (base64url_encode (Bytes y)))]
      in JObj ([(''alg'', JStr ''ES256''), (''nonce'', opt_json nonce), (''url'', url)]
               @ (if truthy account_url then [(''kid'', opt_json account_url)]
                  else [(''jwk'', jwk)])))"

definition acme_payload_b64 :: "json \<Rightarrow> string" where
  "acme_payload_b64 payload =
     (if payload = JNull then [] else base64url_encode (Str (json_dumps payload)))"

definition acme_jws ::
  "(key \<Rightarrow> byte list \<Rightarrow> nat \<times> nat) \<Rightarrow> json \<Rightarrow> key \<Rightarrow> string option \<Rightarrow> string option \<Rightarrow> json
     \<Rightarrow> error + json" where
  "acme_jws sign url k account_url nonce payload =
     (case k of
        ECKey kx ky \<Rightarrow>
          bindE (to_bytes 32 kx) (\<lambda>x.
          bindE (to_bytes 32 ky) (\<lambda>y.
            let protected_b64 =
                  base64url_encode (Str (json_dumps (acme_protected url x y account_url nonce)));
                payload_b64 = acme_payload_b64 payload;
                signing_input = encode (protected_b64 @ ''.'' @ payload_b64);
                sig = sign k signing_input
            in bindE (to_bytes 32 (fst sig)) (\<lambda>r.
               bindE (to_bytes 32 (snd sig)) (\<lambda>s.
                 Inr (JObj [(''protected'', JStr protected_b64),
                            (''payload'', JStr payload_b64),
                            (''signature'', JStr (base64url_encode (Bytes (r @ s))))])))))
      | RSAKey n e \<Rightarrow> Inl AttributeError)"

text \<open>The response dict \<^verbatim>\<open>{'body': ..., 'headers': ...}\<close> that a successful request returns.\<close>

record acme_response =
  acme_body :: string
  acme_headers :: "string \<Rightarrow> string option"

text \<open>
  Lines 452-469. On \<^verbatim>\<open>HTTPError\<close> the program reads the response's nonce into
  \<^verbatim>\<open>new_nonce\<close> and then raises an exception that carries the status code and the body
  only.
\<close>

definition acme_request ::
  "env \<Rightarrow> json \<Rightarrow> key \<Rightarrow> string option \<Rightarrow> string option \<Rightarrow> json
     \<Rightarrow> (acme_response \<times> string option) io" where
  "acme_request env url k account_url nonce payload =
     (\<lambda>tr.
        bnd (lift (acme_jws (ecdsa_sign env tr) url k account_url nonce payload)) (\<lambda>jws.
          case url of
            JStr u \<Rightarrow>
              bnd (call (SignedPost u nonce payload (json_dumps jws)) (urlopen env)) (\<lambda>out.
                case out of
                  Response hs b \<Rightarrow>
                    ret (\<lparr>acme_body = b, acme_headers = headers_dict hs\<rparr>,
                         message_get hs ''Replay-Nonce'')
                | HTTPError code hs b \<Rightarrow>
                    (let new_nonce = (case message_get hs ''Replay-Nonce'' of
                                        None \<Rightarrow> nonce | Some n \<Rightarrow> Some n)
                     in raise (AcmeError code b))
                | Failed \<Rightarrow> raise URLError)
          | _ \<Rightarrow> raise ValueError) tr)"

subsection \<open>\<^verbatim>\<open>acme_register\<close> (lines 392-397)\<close>

definition acme_register :: "env \<Rightarrow> json \<Rightarrow> key \<Rightarrow> string option \<Rightarrow> (string option \<times> string option) io" where
  "acme_register env url k nonce =
     (let payload = JObj [(''termsOfServiceAgreed'', JBool True)]
      in bnd (acme_request env url k None nonce payload) (\<lambda>(response, new_nonce).
           let account_url = acme_headers response ''Location''
           in ret (account_url, new_nonce)))"

subsection \<open>\<^verbatim>\<open>handle_api_request\<close> (lines 36-71)\<close>

text \<open>The dict a Lambda handler returns; a response without headers has none.\<close>

record lambda_response =
  statusCode :: nat
  out_headers :: "(string \<times> string) list"
  out_body :: string

text \<open>\<^verbatim>\<open>obj.get(key, default)\<close> and \<^verbatim>\<open>s.startswith(p)\<close> on JSON values.\<close>

definition dict_get :: "json \<Rightarrow> string \<Rightarrow> json \<Rightarrow> error + json" where
  "dict_get obj k dflt =
     (case obj of
        JObj kvs \<Rightarrow> (case lookup kvs k of None \<Rightarrow> Inr dflt | Some v \<Rightarrow> Inr v)
      | _ \<Rightarrow> Inl AttributeError)"

definition as_str :: "json \<Rightarrow> error + string" where
  "as_str v = (case v of JStr s \<Rightarrow> Inr s | _ \<Rightarrow> Inl AttributeError)"

text \<open>
  Lines 47-71: the certificate is read from the secret store and returned without the
  account key.
\<close>

definition retrieve_certificate :: "env \<Rightarrow> lambda_response io" where
  "retrieve_certificate env =
     catch
       (bnd (lift (environ_item env ''CERT_SECRET_ARN'')) (\<lambda>arn.
        bnd (call (GetSecretValue arn) (get_secret_value env)) (\<lambda>response.
        bnd (lift response) (\<lambda>secret_string.
        bnd (lift (loads env secret_string)) (\<lambda>cert_data.
        bnd (lift (pop ''account_key'' cert_data)) (\<lambda>cert_data'.
          ret \<lparr>statusCode = 200,
               out_headers = [(''Content-Type'', ''application/json'')],
               out_body = json_dumps cert_data'\<rparr>))))))
       (\<lambda>e. if e = ResourceNotFoundException
            then ret \<lparr>statusCode = 404, out_headers = [],
                      out_body = json_dumps (JObj [(''error'', JStr ''Certificate not yet generated'')])\<rparr>
            else ret \<lparr>statusCode = 500, out_headers = [],
                      out_body = json_dumps (JObj [(''error'', JStr ''Failed to retrieve certificate'')])\<rparr>)"

definition handle_api_request :: "env \<Rightarrow> json \<Rightarrow> lambda_response io" where
  "handle_api_request env event =
     bnd (lift (dict_get event ''headers'' (JObj []))) (\<lambda>hs.
     bnd (lift (dict_get hs ''authorization'' (JStr []))) (\<lambda>auth_value.
     bnd (lift (as_str auth_value)) (\<lambda>auth_header.
       let expected_token = (case environ env ''CERT_TOKEN'' of None \<Rightarrow> [] | Some t \<Rightarrow> t)
       in if \<not> prefix ''Bearer '' auth_header \<or> drop 7 auth_header \<noteq> expected_token
          then ret \<lparr>statusCode = 403, out_headers = [],
                    out_body = json_dumps (JObj [(''error'', JStr ''Invalid authorization'')])\<rparr>
          else retrieve_certificate env)))"

subsection \<open>\<^verbatim>\<open>generate_certificate\<close> (lines 115-344)\<close>

text \<open>
  Lines 138-156: get or create the account key. Whatever the \<^verbatim>\<open>try\<close> block raises is
  caught by the bare \<^verbatim>\<open>except\<close>, which leaves no key; without a key a new one is
  generated.
\<close>

definition stored_account_key :: "env \<Rightarrow> string \<Rightarrow> key option io" where
  "stored_account_key env secret_arn =
     catch
       (bnd (call (GetSecretValue secret_arn) (get_secret_value env)) (\<lambda>response.
        bnd (lift response) (\<lambda>secret_string.
        bnd (lift (loads env secret_string)) (\<lambda>secret_data.
        bnd (lift (contains ''account_key'' secret_data)) (\<lambda>present.
          if present
          then bnd (lift (getitem secret_data ''account_key'')) (\<lambda>v.
               bnd (lift (as_str v)) (\<lambda>pem.
                 case load_pem_private_key env (encode pem) of
                   None \<Rightarrow> raise ValueError
                 | Some k \<Rightarrow> ret (Some k)))
          else ret None)))))
       (\<lambda>e. ret None)"

definition get_or_create_account_key :: "env \<Rightarrow> string \<Rightarrow> key io" where
  "get_or_create_account_key env secret_arn =
     bnd (stored_account_key env secret_arn) (\<lambda>account_key.
       case account_key of
         None \<Rightarrow> draw (generate_ec_key env)
       | Some k \<Rightarrow> ret k)"

text \<open>Lines 200-208: the first challenge of type \<^verbatim>\<open>dns-01\<close>.\<close>

fun find_challenge :: "json list \<Rightarrow> error + json option" where
  "find_challenge [] = Inr None"
| "find_challenge (c # cs) =
     bindE (getitem c ''type'') (\<lambda>t.
       if t = JStr ''dns-01'' then Inr (Some c) else find_challenge cs)"

text \<open>
  A value inside an f-string: a string stands for itself; the text Python prints for
  any other value is not modelled.
\<close>

definition fstr :: "json \<Rightarrow> error + string" where
  "fstr v = (case v of JStr s \<Rightarrow> Inr s | _ \<Rightarrow> Inl TypeError)"

text \<open>The local variables that the later steps of \<^verbatim>\<open>generate_certificate\<close> read.\<close>

record locals =
  v_domain :: string
  v_zone_id :: string
  v_secret_arn :: string
  v_account_key :: key
  v_account_url :: "string option"
  v_nonce :: "string option"
  v_cert_key :: key
  v_csr_b64 :: string
  v_order :: json
  v_order_url :: "string option"
  v_auth_url :: json
  v_challenge :: json
  v_txt_name :: string
  v_dns_value :: string
  v_change_id :: string

definition txt_record :: "string \<Rightarrow> string" where
  "txt_record dns_value = [CHR 0x22] @ dns_value @ [CHR 0x22]"

text \<open>
  Lines 117-233, up to the creation of the TXT record. The result is the early return
  of line 133 (\<open>Inl\<close>) or the local variables (\<open>Inr\<close>).
\<close>

definition order_and_provision :: "env \<Rightarrow> (lambda_response + locals) io" where
  "order_and_provision env =
     bnd (lift (environ_item env ''DOMAIN'')) (\<lambda>domain.
     bnd (lift (environ_item env ''ZONE_ID'')) (\<lambda>zone_id.
     bnd (lift (environ_item env ''CERT_SECRET_ARN'')) (\<lambda>secret_arn.
       if \<not> cryptography_available env
       then ret (Inl \<lparr>statusCode = 500, out_headers = [],
                      out_body = ''cryptography library not available''\<rparr>)
       else
     bnd (get_or_create_account_key env secret_arn) (\<lambda>account_key.
     bnd (fetch_url env (JStr ''https://acme-v02.api.letsencrypt.org/directory'') ''GET'' False) (\<lambda>f.
     bnd (lift (case f of Body b \<Rightarrow> loads env b | Headers h \<Rightarrow> Inl TypeError)) (\<lambda>directory.
     bnd (lift (getitem directory ''newNonce'')) (\<lambda>nonce_url.
     bnd (fetch_url env nonce_url ''HEAD'' True) (\<lambda>f'.
     bnd (lift (case f' of Body b \<Rightarrow> Inl TypeError
                | Headers h \<Rightarrow> (case h ''Replay-Nonce'' of
                                 None \<Rightarrow> Inl (KeyError ''Replay-Nonce'') | Some n \<Rightarrow> Inr n))) (\<lambda>nonce0.
     bnd (lift (getitem directory ''newAccount'')) (\<lambda>account_endpoint.
     bnd (acme_register env account_endpoint account_key (Some nonce0)) (\<lambda>(account_url, nonce1).
     bnd (draw (generate_rsa_key env)) (\<lambda>cert_key.
       let csr_der = build_csr env cert_key domain;
           csr_b64 = base64url_encode (Bytes csr_der);
           order_payload = JObj [(''identifiers'',
                             JArr [JObj [(''type'', JStr ''dns''), (''value'', JStr domain)]])]
       in
     bnd (lift (getitem directory ''newOrder'')) (\<lambda>order_endpoint.
     bnd (acme_request env order_endpoint account_key account_url nonce1 order_payload)
       (\<lambda>(order_response, nonce2).
     bnd (lift (loads env (acme_body order_response))) (\<lambda>order.
       let order_url = acme_headers order_response ''Location'' in
     bnd (lift (bindE (getitem order ''authorizations'') getfirst)) (\<lambda>auth_url.
     bnd (acme_request env auth_url account_key account_url nonce2 JNull)
       (\<lambda>(auth_response, nonce3).
     bnd (lift (loads env (acme_body auth_response))) (\<lambda>auth.
     bnd (lift (bindE (bindE (getitem auth ''challenges'') iter) find_challenge)) (\<lambda>found.
       case found of
         None \<Rightarrow> raise NoDns01Challenge
       | Some challenge \<Rightarrow>
     bnd (lift (jwk_thumbprint env account_key)) (\<lambda>thumbprint.
     bnd (lift (bindE (getitem challenge ''token'') fstr)) (\<lambda>token.
       let key_auth = token @ ''.'' @ thumbprint;
           dns_value = base64url_encode (Bytes (sha256 env (encode key_auth)));
           txt_name = ''_acme-challenge.'' @ domain
       in
     bnd (call (ChangeRecordSets zone_id ''UPSERT'' txt_name (txt_record dns_value))
            (change_resource_record_sets env)) (\<lambda>change_response.
     bnd (lift change_response) (\<lambda>change_id.
       ret (Inr \<lparr>v_domain = domain, v_zone_id = zone_id, v_secret_arn = secret_arn,
                 v_account_key = account_key, v_account_url = account_url,
                 v_nonce = nonce3, v_cert_key = cert_key, v_csr_b64 = csr_b64,
                 v_order = order, v_order_url = order_url, v_auth_url = auth_url,
                 v_challenge = challenge, v_txt_name = txt_name,
                 v_dns_value = dns_value, v_change_id = change_id\<rparr>)
     )))))))))))))))))))))))"

text \<open>
  Lines 236-241: \<^verbatim>\<open>while True\<close>, one status query per round and five seconds of sleep
  after every answer other than \<^verbatim>\<open>INSYNC\<close>. The loop has no bound of its own, so the
  model is a partial function: \<open>None\<close> is the loop that never ends.
\<close>

partial_function (option) wait_insync ::
  "env \<Rightarrow> string \<Rightarrow> event list \<Rightarrow> ((error + unit) \<times> event list) option" where
  "wait_insync env change_id tr =
     (case get_change env (tr @ [GetChange change_id]) of
        Inl e \<Rightarrow> Some (Inl e, tr @ [GetChange change_id])
      | Inr change_status \<Rightarrow>
          if change_status = ''INSYNC'' then Some (Inr (), tr @ [GetChange change_id])
          else wait_insync env change_id (tr @ [GetChange change_id, Sleep 5]))"

text \<open>
  Lines 250-263: \<^verbatim>\<open>for _ in range(30)\<close> with its \<^verbatim>\<open>else\<close> branch; the first
  argument counts the rounds that are left.
\<close>

fun poll_authorization ::
  "nat \<Rightarrow> env \<Rightarrow> json \<Rightarrow> key \<Rightarrow> string option \<Rightarrow> string option \<Rightarrow> string option io" where
  "poll_authorization 0 env auth_url k account_url nonce = raise ChallengeTimeout"
| "poll_authorization (Suc n) env auth_url k account_url nonce =
     bnd (acme_request env auth_url k account_url nonce JNull) (\<lambda>(auth_response, nonce').
     bnd (lift (loads env (acme_body auth_response))) (\<lambda>auth.
     bnd (lift (getitem auth ''status'')) (\<lambda>status.
       if status = JStr ''valid'' then ret nonce'
       else if status = JStr ''invalid'' then raise (ChallengeFailed auth)
       else bnd (sleep 2) (\<lambda>_. poll_authorization n env auth_url k account_url nonce'))))"

text \<open>Lines 269-281: the same loop on the order; it leaves the last order it read.\<close>

fun poll_order ::
  "nat \<Rightarrow> env \<Rightarrow> json \<Rightarrow> key \<Rightarrow> string option \<Rightarrow> string option \<Rightarrow> (json \<times> string option) io" where
  "poll_order 0 env order_url k account_url nonce = raise OrderTimeout"
| "poll_order (Suc n) env order_url k account_url nonce =
     bnd (acme_request env order_url k account_url nonce JNull) (\<lambda>(order_response, nonce').
     bnd (lift (loads env (acme_body order_response))) (\<lambda>order.
     bnd (lift (getitem order ''status'')) (\<lambda>status.
     bnd (lift (if status = JStr ''valid'' then contains ''certificate'' order else Inr False)) (\<lambda>ready.
       if ready then ret (order, nonce')
       else if status = JStr ''invalid'' then raise (OrderFailed order)
       else bnd (sleep 2) (\<lambda>_. poll_order n env order_url k account_url nonce')))))"

text \<open>Lines 288-293: the leaf certificate and the chain from the downloaded PEM text.\<close>

definition end_marker :: string where
  "end_marker = ''-----END CERTIFICATE-----''"

definition split_chain :: "string \<Rightarrow> error + string \<times> string" where
  "split_chain cert_pem =
     (case str_split end_marker cert_pem of
        [] \<Rightarrow> Inl IndexError
      | first # rest \<Rightarrow>
          (let certificate = first @ end_marker @ [CHR 0x0A];
               chain = strip (join end_marker rest)
           in Inr (certificate, if chain \<noteq> [] then chain @ [CHR 0x0A] else chain)))"

text \<open>Lines 299-317: the TXT record is deleted; a failure is printed and forgotten.\<close>

definition cleanup_txt_record :: "env \<Rightarrow> locals \<Rightarrow> unit io" where
  "cleanup_txt_record env l =
     catch
       (bnd (call (ChangeRecordSets (v_zone_id l) ''DELETE'' (v_txt_name l)
                     (txt_record (v_dns_value l)))
               (change_resource_record_sets env)) (\<lambda>r.
        bnd (lift r) (\<lambda>_. ret ())))
       (\<lambda>e. ret ())"

text \<open>Lines 332-339: the dict that is stored.\<close>

definition cert_data ::
  "string \<Rightarrow> string \<Rightarrow> string \<Rightarrow> string \<Rightarrow> string \<Rightarrow> string \<Rightarrow> json" where
  "cert_data certificate chain private_key_pem domain expires account_key_pem =
     JObj [(''certificate'', JStr certificate), (''chain'', JStr chain),
           (''private_key'', JStr private_key_pem), (''domain'', JStr domain),
           (''expires'', JStr expires), (''account_key'', JStr account_key_pem)]"

text \<open>
  Lines 243-263: the settle delay, the notification of the challenge and the
  authorization poll. The result is the nonce for the next request.
\<close>

definition validate_challenge :: "env \<Rightarrow> locals \<Rightarrow> string option io" where
  "validate_challenge env l =
     bnd (sleep 10) (\<lambda>_.
     bnd (lift (getitem (v_challenge l) ''url'')) (\<lambda>challenge_url.
     bnd (acme_request env challenge_url (v_account_key l) (v_account_url l) (v_nonce l) (JObj []))
       (\<lambda>(_, nonce4).
     poll_authorization 30 env (v_auth_url l) (v_account_key l) (v_account_url l) nonce4)))"

text \<open>
  Lines 265-297: the order is finalized and polled, the certificate is downloaded and
  split, and the expiry is read from the leaf. The result is the leaf, the chain and the
  expiry.
\<close>

definition finalize_and_download ::
  "env \<Rightarrow> locals \<Rightarrow> string option \<Rightarrow> (string \<times> string \<times> string) io" where
  "finalize_and_download env l nonce5 =
     bnd (lift (getitem (v_order l) ''finalize'')) (\<lambda>finalize_url.
     bnd (acme_request env finalize_url (v_account_key l) (v_account_url l) nonce5
            (JObj [(''csr'', JStr (v_csr_b64 l))])) (\<lambda>(_, nonce6).
     bnd (poll_order 30 env (opt_json (v_order_url l)) (v_account_key l) (v_account_url l) nonce6)
       (\<lambda>(order, nonce7).
     bnd (lift (getitem order ''certificate'')) (\<lambda>certificate_url.
     bnd (acme_request env certificate_url (v_account_key l) (v_account_url l) nonce7 JNull)
       (\<lambda>(cert_response, _).
     bnd (lift (split_chain (acme_body cert_response))) (\<lambda>(certificate, chain).
     bnd (lift (case not_valid_after env (encode certificate) of
                  None \<Rightarrow> Inl ValueError | Some t \<Rightarrow> Inr t)) (\<lambda>expires.
       ret (certificate, chain, expires))))))))"

text \<open>Lines 319-344: the bundle is put together and written to the secret store.\<close>

definition store_certificate ::
  "env \<Rightarrow> locals \<Rightarrow> string \<Rightarrow> string \<Rightarrow> string \<Rightarrow> lambda_response io" where
  "store_certificate env l certificate chain expires =
     (let private_key_pem = private_bytes env (v_cert_key l);
          account_key_pem = private_bytes env (v_account_key l);
          stored = cert_data certificate chain private_key_pem (v_domain l) expires
                     account_key_pem
      in bnd (call (PutSecretValue (v_secret_arn l) (json_dumps stored)) (put_secret_value env))
           (\<lambda>failure.
              case failure of
                Some e \<Rightarrow> raise e
              | None \<Rightarrow>
                  ret \<lparr>statusCode = 200, out_headers = [],
                       out_body = json_dumps (JObj [(''message'', JStr ''Certificate generated''),
                                                    (''expires'', JStr expires)])\<rparr>))"

text \<open>Lines 243-344, after the TXT record is in sync.\<close>

definition validate_and_store :: "env \<Rightarrow> locals \<Rightarrow> lambda_response io" where
  "validate_and_store env l =
     bnd (validate_challenge env l) (\<lambda>nonce5.
     bnd (finalize_and_download env l nonce5) (\<lambda>(certificate, chain, expires).
     bnd (cleanup_txt_record env l) (\<lambda>_.
     store_certificate env l certificate chain expires)))"

text \<open>
  The whole of \<^verbatim>\<open>generate_certificate\<close>, from an empty or given trace: the result and
  the trace when the call returns or raises, \<open>None\<close> when it never does.
\<close>

definition generate_certificate ::
  "env \<Rightarrow> event list \<Rightarrow> ((error + lambda_response) \<times> event list) option" where
  "generate_certificate env tr =
     (case order_and_provision env tr of
        (Inl e, tr1) \<Rightarrow> Some (Inl e, tr1)
      | (Inr (Inl early), tr1) \<Rightarrow> Some (Inr early, tr1)
      | (Inr (Inr l), tr1) \<Rightarrow>
          (case wait_insync env (v_change_id l) tr1 of
             None \<Rightarrow> None
           | Some (Inl e, tr2) \<Rightarrow> Some (Inl e, tr2)
           | Some (Inr u, tr2) \<Rightarrow> Some (validate_and_store env l tr2)))"

section \<open>Vocabulary of the properties\<close>

text \<open>Kinds of events: a write to the secret store, a finalize request, a poll of a URL.\<close>

fun is_put :: "event \<Rightarrow> bool" where
  "is_put (PutSecretValue arn v) = True"
| "is_put ev = False"

fun is_finalize :: "event \<Rightarrow> bool" where
  "is_finalize (SignedPost u n (JObj [(k, v)]) d) = (k = ''csr'')"
| "is_finalize ev = False"

fun is_poll :: "string \<Rightarrow> event \<Rightarrow> bool" where
  "is_poll url (SignedPost u n payload d) = (u = url \<and> payload = JNull)"
| "is_poll url ev = False"

text \<open>
  A P-256 public point has coordinates below \<open>2^256\<close>, and so have the two components
  of an ES256 signature.
\<close>

definition p256_key :: "key \<Rightarrow> bool" where
  "p256_key k = (case k of ECKey x y \<Rightarrow> x < 2 ^ 256 \<and> y < 2 ^ 256 | RSAKey n e \<Rightarrow> False)"

definition p256_signer :: "env \<Rightarrow> bool" where
  "p256_signer env =
     (\<forall>tr k m. fst (ecdsa_sign env tr k m) < 2 ^ 256 \<and> snd (ecdsa_sign env tr k m) < 2 ^ 256)"

text \<open>
  A certificate block of a PEM stream: the begin line, a body without dashes (base64
  text and line breaks), the end marker and a line break.
\<close>

definition pem_block :: "string \<Rightarrow> string" where
  "pem_block b = ''-----BEGIN CERTIFICATE-----'' @ [CHR 0x0A] @ b @ end_marker @ [CHR 0x0A]"

text \<open>
  The \<open>k\<close>-th status query of the DNS wait that starts at trace \<open>tr\<close>: the history the
  provider sees, \<open>k\<close> unsuccessful rounds before it.
\<close>

definition dns_query :: "string \<Rightarrow> event list \<Rightarrow> nat \<Rightarrow> event list" where
  "dns_query change_id tr k =
     tr @ concat (replicate k [GetChange change_id, Sleep 5]) @ [GetChange change_id]"

text \<open>
  The characters of \<^const>\<open>urlsafe_b64encode\<close> without the padding: what is left when the
  trailing \<open>=\<close> are stripped.
\<close>

fun b64_unpadded :: "byte list \<Rightarrow> string" where
  "b64_unpadded [] = []"
| "b64_unpadded [a] = [b64_char (unat a div 4), b64_char (unat a mod 4 * 16)]"
| "b64_unpadded [a, b] =
     [b64_char (unat a div 4), b64_char (unat a mod 4 * 16 + unat b div 16),
      b64_char (unat b mod 16 * 4)]"
| "b64_unpadded (a # b # c # r) =
     [b64_char (unat a div 4), b64_char (unat a mod 4 * 16 + unat b div 16),
      b64_char (unat b mod 16 * 4 + unat c div 64), b64_char (unat c mod 64)]
     @ b64_unpadded r"

definition begin_line :: string where
  "begin_line = ''-----BEGIN CERTIFICATE-----'' @ [CHR 0x0A]"





text \<open>
  A statement only appends to the trace, and every event it appends satisfies \<open>P\<close>.
\<close>

definition appends :: "(event \<Rightarrow> bool) \<Rightarrow> 'a io \<Rightarrow> bool" where
  "appends P m = (\<forall>tr. \<exists>ext. snd (m tr) = tr @ ext \<and> list_all P ext)"

text \<open>
  The authorization at URL \<open>u\<close> stays pending: whatever has happened before, a
  POST-as-GET of \<open>u\<close> is answered with a document whose status is \<^verbatim>\<open>pending\<close>.
\<close>

definition stays_pending :: "env \<Rightarrow> string \<Rightarrow> bool" where
  "stays_pending env u =
     (\<forall>tr n d. \<exists>hs b auth.
        urlopen env (tr @ [SignedPost u n JNull d]) = Response hs b \<and>
        json_loads env b = Some auth \<and>
        getitem auth ''status'' = Inr (JStr ''pending''))"

text \<open>An event that is neither a write to the secret store nor a finalize request.\<close>

definition quiet :: "event \<Rightarrow> bool" where
  "quiet ev = (\<not> is_put ev \<and> \<not> is_finalize ev)"

section \<open>A concrete environment\<close>

text \<open>
  A small certificate authority, DNS provider and secret store to run the program
  against. The authority answers by URL; the bodies are tags that the environment's
  \<^verbatim>\<open>json.loads\<close> maps to documents. Three behaviours: the authority validates the
  challenge once it has been notified (\<open>Issues\<close>), the authorization stays pending
  (\<open>StaysPending\<close>), or the DNS change never gets in sync (\<open>NeverInSync\<close>).
\<close>

datatype behaviour = Issues | StaysPending | NeverInSync

definition demo_documents :: "(string \<times> json) list" where
  "demo_documents =
     [(''directory'',
         JObj [(''newNonce'', JStr ''https://ca.test/nonce''),
               (''newAccount'', JStr ''https://ca.test/acct''),
               (''newOrder'', JStr ''https://ca.test/order'')]),
      (''order'',
         JObj [(''status'', JStr ''pending''),
               (''authorizations'', JArr [JStr ''https://ca.test/authz/1'']),
               (''finalize'', JStr ''https://ca.test/finalize/1'')]),
      (''order-valid'',
         JObj [(''status'', JStr ''valid''), (''certificate'', JStr ''https://ca.test/cert/1'')]),
      (''authz-pending'',
         JObj [(''status'', JStr ''pending''),
               (''challenges'',
                  JArr [JObj [(''type'', JStr ''http-01''), (''token'', JStr ''tok''),
                              (''url'', JStr ''https://ca.test/chall/0'')],
                        JObj [(''type'', JStr ''dns-01''), (''token'', JStr ''tok''),
                              (''url'', JStr ''https://ca.test/chall/1'')]])]),
      (''authz-valid'', JObj [(''status'', JStr ''valid'')]),
      (''authz-invalid'', JObj [(''status'', JStr ''invalid'')]),
      (''{}'', JObj []),
      (''bundle'',
         JObj [(''certificate'', JStr ''LEAF''), (''chain'', JStr ''CHAIN''),
               (''private_key'', JStr ''CERT-KEY''), (''domain'', JStr ''example.com''),
               (''expires'', JStr ''2027-01-01T00:00:00+00:00''),
               (''account_key'', JStr ''ACCOUNT-KEY'')]),
      (''bad-bundle'', JObj [(''account_key'', JStr ''garbage'')])]"

fun is_notify :: "event \<Rightarrow> bool" where
  "is_notify (SignedPost u n payload d) = (u = ''https://ca.test/chall/1'')"
| "is_notify ev = False"

definition demo_pem :: string where
  "demo_pem = pem_block ''AAAA'' @ pem_block ''BBBB''"

definition demo_urlopen :: "behaviour \<Rightarrow> event list \<Rightarrow> http_outcome" where
  "demo_urlopen b tr =
     (case last tr of
        Fetch m u \<Rightarrow>
          if m = ''HEAD'' then Response [(''Replay-Nonce'', ''nonce0'')] []
          else Response [] ''directory''
      | SignedPost u n payload d \<Rightarrow>
          (let fresh = (''Replay-Nonce'', ''nonce'' @ str_nat (length tr))
           in if u = ''https://ca.test/acct''
                then Response [(''Location'', ''https://ca.test/acct/1''), fresh] ''{}''
              else if u = ''https://ca.test/order''
                then Response [(''Location'', ''https://ca.test/order/1''), fresh] ''order''
              else if u = ''https://ca.test/authz/1''
                then Response [fresh]
                       (if b = Issues \<and> list_ex is_notify tr then ''authz-valid''
                        else ''authz-pending'')
              else if u = ''https://ca.test/chall/1'' then Response [fresh] ''{}''
              else if u = ''https://ca.test/finalize/1'' then Response [fresh] ''{}''
              else if u = ''https://ca.test/order/1'' then Response [fresh] ''order-valid''
              else if u = ''https://ca.test/cert/1'' then Response [fresh] demo_pem
              else HTTPError 404 [fresh] ''not found'')
      | _ \<Rightarrow> Failed)"

definition demo_env :: "behaviour \<Rightarrow> error + string \<Rightarrow> env" where
  "demo_env b secret =
     \<lparr>environ = map_of [(''DOMAIN'', ''example.com''), (''ZONE_ID'', ''Z1''),
                        (''CERT_SECRET_ARN'', ''arn:cert'')],
      cryptography_available = True,
      json_loads = map_of demo_documents,
      sha256 = (\<lambda>bs. bs),
      load_pem_private_key = (\<lambda>bs. if bs = encode ''ACCOUNT-KEY'' then Some (ECKey 5 7) else None),
      private_bytes = (\<lambda>k. case k of ECKey x y \<Rightarrow> ''EC-KEY'' | RSAKey n e \<Rightarrow> ''RSA-KEY''),
      build_csr = (\<lambda>k domain. encode domain),
      not_valid_after = (\<lambda>bs. Some ''2027-01-01T00:00:00+00:00''),
      generate_ec_key = (\<lambda>tr. ECKey 11 13),
      generate_rsa_key = (\<lambda>tr. RSAKey 15 65537),
      ecdsa_sign = (\<lambda>tr k m. (1, 2)),
      urlopen = demo_urlopen b,
      get_secret_value = (\<lambda>tr. secret),
      put_secret_value = (\<lambda>tr. None),
      change_resource_record_sets = (\<lambda>tr. Inr ''change-1''),
      get_change = (\<lambda>tr. if b \<noteq> NeverInSync \<and> Sleep 5 \<in> set tr then Inr ''INSYNC''
                            else Inr ''PENDING'')\<rparr>"

definition demo_event :: "string \<Rightarrow> json" where
  "demo_event token = JObj [(''headers'', JObj [(''authorization'', JStr (''Bearer '' @ token))])]"

definition with_token :: "env \<Rightarrow> string \<Rightarrow> env" where
  "with_token env token = env\<lparr>environ := (environ env)(''CERT_TOKEN'' \<mapsto> token)\<rparr>"

text \<open>The same environment with secrets that parse to something other than a bundle.\<close>

definition demo_odd_env :: "error + string \<Rightarrow> env" where
  "demo_odd_env secret =
     (demo_env Issues secret)
       \<lparr>json_loads := map_of [(''list'', JArr [JStr ''account_key'']),
                              (''number'', JObj [(''account_key'', JInt 7)])]\<rparr>"

section \<open>Properties\<close>

lemmas io_defs = bnd_def lift_def ret_def raise_def catch_def call_def draw_def sleep_def

subsection \<open>Base64 without padding and big-endian bytes are injective\<close>

lemma byte_bound: "unat (a :: byte) < 256"
  using unsigned_less[of a, where 'a = nat] by simp







lemma b64_alphabet_length: "length b64_alphabet = 64"
  by (simp add: b64_alphabet_def)


lemma b64_alphabet_no_pad: "CHR ''='' \<notin> set b64_alphabet"
  by (simp add: b64_alphabet_def)


lemma b64_char_no_pad: "i < 64 \<Longrightarrow> b64_char i \<noteq> CHR ''=''"
proof
  assume "i < 64" and "b64_char i = CHR ''=''"
  then have "CHR ''='' \<in> set b64_alphabet"
    by (metis b64_char_def b64_alphabet_length nth_mem)
  then show False
    using b64_alphabet_no_pad by contradiction
qed

lemma sextet_bounds:
  "unat (a :: byte) div 4 < 64"
  "unat (a :: byte) mod 4 * 16 < 64"
  "unat (a :: byte) mod 4 * 16 + unat (b :: byte) div 16 < 64"
  "unat (b :: byte) mod 16 * 4 < 64"
  "unat (b :: byte) mod 16 * 4 + unat (c :: byte) div 64 < 64"
  "unat (c :: byte) mod 64 < 64"
  using byte_bound[of a] byte_bound[of b] byte_bound[of c] by arith+

lemma b64_unpadded_no_pad: "CHR ''='' \<notin> set (b64_unpadded bs)"
  using b64_char_no_pad[OF sextet_bounds(1)] b64_char_no_pad[OF sextet_bounds(2)]
    b64_char_no_pad[OF sextet_bounds(3)] b64_char_no_pad[OF sextet_bounds(4)]
    b64_char_no_pad[OF sextet_bounds(5)] b64_char_no_pad[OF sextet_bounds(6)]
  by (induction bs rule: b64_unpadded.induct) (simp_all add: eq_commute)

lemma mod3_Suc3: "Suc (Suc (Suc n)) mod 3 = n mod 3"
  by presburger

lemma replicate_2: "replicate 2 x = [x, x]"
  by (simp add: numeral_2_eq_2)

lemma urlsafe_b64encode_split:
  "urlsafe_b64encode bs =
     b64_unpadded bs @ replicate ((3 - length bs mod 3) mod 3) (CHR ''='')"
  by (induction bs rule: b64_unpadded.induct) (simp_all add: mod3_Suc3 replicate_2)

lemma rstrip_padding:
  assumes "c \<notin> set xs"
  shows "rstrip [c] (xs @ replicate n c) = xs"
proof -
  have "dropWhile (\<lambda>x. x = c) (replicate n c @ rev xs) = dropWhile (\<lambda>x. x = c) (rev xs)"
    by (induction n) simp_all
  moreover have "dropWhile (\<lambda>x. x = c) (rev xs) = rev xs"
    using assms by (cases "rev xs") (auto simp: dropWhile_eq_self_iff)
  ultimately show ?thesis
    by (simp add: rstrip_def)
qed

lemma base64url_encode_bytes: "base64url_encode (Bytes bs) = b64_unpadded bs"
  by (simp add: base64url_encode_def urlsafe_b64encode_split rstrip_padding b64_unpadded_no_pad)

lemma base64url_encode_str: "base64url_encode (Str s) = b64_unpadded (encode s)"
  by (simp add: base64url_encode_def urlsafe_b64encode_split rstrip_padding b64_unpadded_no_pad)

lemma base64url_encode_no_pad: "CHR ''='' \<notin> set (base64url_encode d)"
  by (cases d) (simp_all add: base64url_encode_bytes base64url_encode_str b64_unpadded_no_pad)

















subsection \<open>The certificate download\<close>

lemma lookup_filter_self: "lookup (filter (\<lambda>kv. fst kv \<noteq> k) kvs) k = None"
  by (induction kvs) auto

lemma lookup_filter_other:
  "k' \<noteq> k \<Longrightarrow> lookup (filter (\<lambda>kv. fst kv \<noteq> k) kvs) k' = lookup kvs k'"
  by (induction kvs) auto

lemma retrieve_certificate_found:
  assumes "environ env ''CERT_SECRET_ARN'' = Some arn"
    and "get_secret_value env (tr @ [GetSecretValue arn]) = Inr s"
    and "json_loads env s = Some (JObj kvs)"
  shows "retrieve_certificate env tr =
      (Inr \<lparr>statusCode = 200, out_headers = [(''Content-Type'', ''application/json'')],
            out_body = json_dumps (JObj (filter (\<lambda>kv. fst kv \<noteq> ''account_key'') kvs))\<rparr>,
       tr @ [GetSecretValue arn])"
  using assms by (simp add: retrieve_certificate_def io_defs environ_item_def loads_def pop_def)

lemma retrieve_certificate_missing:
  assumes "environ env ''CERT_SECRET_ARN'' = Some arn"
    and "get_secret_value env (tr @ [GetSecretValue arn]) = Inl ResourceNotFoundException"
  shows "retrieve_certificate env tr =
      (Inr \<lparr>statusCode = 404, out_headers = [],
            out_body = json_dumps (JObj [(''error'', JStr ''Certificate not yet generated'')])\<rparr>,
       tr @ [GetSecretValue arn])"
  using assms by (simp add: retrieve_certificate_def io_defs environ_item_def)

lemma retrieve_certificate_hides_key:
  assumes "retrieve_certificate env tr = (Inr r, tr')" and "statusCode r = 200"
  shows "\<exists>kvs. out_body r = json_dumps (JObj kvs) \<and> lookup kvs ''account_key'' = None"
  using assms
  by (auto simp add: retrieve_certificate_def io_defs environ_item_def loads_def pop_def
        lookup_filter_self
      split: option.splits sum.splits if_splits json.splits prod.splits)

lemma retrieve_certificate_status:
  "\<exists>r tr'. retrieve_certificate env tr = (Inr r, tr') \<and> statusCode r \<in> {200, 404, 500}"
  by (auto simp add: retrieve_certificate_def io_defs environ_item_def loads_def pop_def
      split: option.splits sum.splits if_splits json.splits prod.splits)

lemma handle_api_request_authorized:
  assumes "lookup ev ''headers'' = Some (JObj hs)"
    and "lookup hs ''authorization'' = Some (JStr (''Bearer '' @ token))"
    and "(case environ env ''CERT_TOKEN'' of None \<Rightarrow> [] | Some t \<Rightarrow> t) = token"
  shows "handle_api_request env (JObj ev) tr = retrieve_certificate env tr"
  using assms by (auto simp add: handle_api_request_def io_defs dict_get_def as_str_def)

lemma handle_api_request_hides_key:
  assumes "handle_api_request env event tr = (Inr r, tr')" and "statusCode r = 200"
  shows "\<exists>kvs. out_body r = json_dumps (JObj kvs) \<and> lookup kvs ''account_key'' = None"
proof -
  from assms have "retrieve_certificate env tr = (Inr r, tr')"
    by (auto simp add: handle_api_request_def io_defs split: sum.splits if_splits)
  then show ?thesis using assms(2) by (rule retrieve_certificate_hides_key)
qed

text \<open>
  Claim C9. A download request with the configured bearer token returns the stored
  bundle as a 200 response whose body is the stored dict without its \<^verbatim>\<open>account_key\<close>
  entry, every other entry unchanged; when the secret store has no such secret the
  answer is the 404 response "Certificate not yet generated". Whatever the request and
  the store, the body of a 200 response is a dict that has no \<^verbatim>\<open>account_key\<close> entry.
\<close>

theorem fetch_current_hides_account_key:
  "(lookup ev ''headers'' = Some (JObj hs) \<and>
    lookup hs ''authorization'' = Some (JStr (''Bearer '' @ token)) \<and>
    environ env ''CERT_TOKEN'' = Some token \<and>
    environ env ''CERT_SECRET_ARN'' = Some arn \<longrightarrow>
      (get_secret_value env (tr @ [GetSecretValue arn]) = Inr s \<and>
       json_loads env s = Some (JObj kvs) \<longrightarrow>
         handle_api_request env (JObj ev) tr =
           (Inr \<lparr>statusCode = 200, out_headers = [(''Content-Type'', ''application/json'')],
                 out_body = json_dumps (JObj (filter (\<lambda>kv. fst kv \<noteq> ''account_key'') kvs))\<rparr>,
            tr @ [GetSecretValue arn]) \<and>
         lookup (filter (\<lambda>kv. fst kv \<noteq> ''account_key'') kvs) ''account_key'' = None \<and>
         (\<forall>k. k \<noteq> ''account_key'' \<longrightarrow>
            lookup (filter (\<lambda>kv. fst kv \<noteq> ''account_key'') kvs) k = lookup kvs k)) \<and>
      (get_secret_value env (tr @ [GetSecretValue arn]) = Inl ResourceNotFoundException \<longrightarrow>
         handle_api_request env (JObj ev) tr =
           (Inr \<lparr>statusCode = 404, out_headers = [],
                 out_body = json_dumps (JObj [(''error'', JStr ''Certificate not yet generated'')])\<rparr>,
            tr @ [GetSecretValue arn]))) \<and>
   (\<forall>r tr'. handle_api_request env event tr = (Inr r, tr') \<and> statusCode r = 200 \<longrightarrow>
      (\<exists>kvs'. out_body r = json_dumps (JObj kvs') \<and> lookup kvs' ''account_key'' = None))"
proof (intro conjI impI allI)
  fix r tr'
  assume "handle_api_request env event tr = (Inr r, tr') \<and> statusCode r = 200"
  then show "\<exists>kvs'. out_body r = json_dumps (JObj kvs') \<and> lookup kvs' ''account_key'' = None"
    using handle_api_request_hides_key by blast
next
  assume a: "lookup ev ''headers'' = Some (JObj hs) \<and>
    lookup hs ''authorization'' = Some (JStr (''Bearer '' @ token)) \<and>
    environ env ''CERT_TOKEN'' = Some token \<and>
    environ env ''CERT_SECRET_ARN'' = Some arn"
  then have pass: "handle_api_request env (JObj ev) tr = retrieve_certificate env tr"
    by (intro handle_api_request_authorized[where hs = hs and token = token]) simp_all
  {
    assume "get_secret_value env (tr @ [GetSecretValue arn]) = Inr s \<and>
       json_loads env s = Some (JObj kvs)"
    with a pass show "handle_api_request env (JObj ev) tr =
           (Inr \<lparr>statusCode = 200, out_headers = [(''Content-Type'', ''application/json'')],
                 out_body = json_dumps (JObj (filter (\<lambda>kv. fst kv \<noteq> ''account_key'') kvs))\<rparr>,
            tr @ [GetSecretValue arn])"
      by (simp add: retrieve_certificate_found)
  }
  {
    assume "get_secret_value env (tr @ [GetSecretValue arn]) = Inl ResourceNotFoundException"
    with a pass show "handle_api_request env (JObj ev) tr =
           (Inr \<lparr>statusCode = 404, out_headers = [],
                 out_body = json_dumps (JObj [(''error'', JStr ''Certificate not yet generated'')])\<rparr>,
            tr @ [GetSecretValue arn])"
      by (simp add: retrieve_certificate_missing)
  }
qed (simp_all add: lookup_filter_self lookup_filter_other)

theorem fetch_current_hides_account_key_witness:
  "handle_api_request (with_token (demo_env Issues (Inr ''bundle'')) ''s3cret'') (demo_event ''s3cret'') [] =
     (Inr \<lparr>statusCode = 200, out_headers = [(''Content-Type'', ''application/json'')],
           out_body = json_dumps (JObj [(''certificate'', JStr ''LEAF''), (''chain'', JStr ''CHAIN''),
               (''private_key'', JStr ''CERT-KEY''), (''domain'', JStr ''example.com''),
               (''expires'', JStr ''2027-01-01T00:00:00+00:00'')])\<rparr>,
      [GetSecretValue ''arn:cert''])
   \<and> handle_api_request (with_token (demo_env Issues (Inl ResourceNotFoundException)) ''s3cret'')
        (demo_event ''s3cret'') [] =
     (Inr \<lparr>statusCode = 404, out_headers = [],
           out_body = json_dumps (JObj [(''error'', JStr ''Certificate not yet generated'')])\<rparr>,
      [GetSecretValue ''arn:cert''])"
proof -
  let ?env = "with_token (demo_env Issues (Inr ''bundle'')) ''s3cret''"
  let ?env' = "with_token (demo_env Issues (Inl ResourceNotFoundException)) ''s3cret''"
  let ?hs = "[(''authorization'', JStr (''Bearer '' @ ''s3cret''))]"
  let ?ev = "[(''headers'', JObj ?hs)]"
  let ?kvs = "[(''certificate'', JStr ''LEAF''), (''chain'', JStr ''CHAIN''),
               (''private_key'', JStr ''CERT-KEY''), (''domain'', JStr ''example.com''),
               (''expires'', JStr ''2027-01-01T00:00:00+00:00''),
               (''account_key'', JStr ''ACCOUNT-KEY'')]"
  have request: "lookup ?ev ''headers'' = Some (JObj ?hs)"
    "lookup ?hs ''authorization'' = Some (JStr (''Bearer '' @ ''s3cret''))"
    by simp_all
  have config: "environ ?env ''CERT_TOKEN'' = Some ''s3cret''"
    "environ ?env ''CERT_SECRET_ARN'' = Some ''arn:cert''"
    "environ ?env' ''CERT_TOKEN'' = Some ''s3cret''"
    "environ ?env' ''CERT_SECRET_ARN'' = Some ''arn:cert''"
    by (simp_all add: demo_env_def with_token_def)
  have store: "get_secret_value ?env ([] @ [GetSecretValue ''arn:cert'']) = Inr ''bundle''"
    "json_loads ?env ''bundle'' = Some (JObj ?kvs)"
    "get_secret_value ?env' ([] @ [GetSecretValue ''arn:cert'']) = Inl ResourceNotFoundException"
    by (simp_all add: demo_env_def with_token_def demo_documents_def)
  have found: "handle_api_request ?env (JObj ?ev) [] =
      (Inr \<lparr>statusCode = 200, out_headers = [(''Content-Type'', ''application/json'')],
            out_body = json_dumps (JObj (filter (\<lambda>kv. fst kv \<noteq> ''account_key'') ?kvs))\<rparr>,
       [] @ [GetSecretValue ''arn:cert''])"
    using fetch_current_hides_account_key[where ev = ?ev and hs = ?hs and token = "''s3cret''"
        and env = ?env and arn = "''arn:cert''" and tr = "[]" and s = "''bundle''" and kvs = ?kvs]
      request config store by blast
  have missing: "handle_api_request ?env' (JObj ?ev) [] =
      (Inr \<lparr>statusCode = 404, out_headers = [],
            out_body = json_dumps (JObj [(''error'', JStr ''Certificate not yet generated'')])\<rparr>,
       [] @ [GetSecretValue ''arn:cert''])"
    using fetch_current_hides_account_key[where ev = ?ev and hs = ?hs and token = "''s3cret''"
        and env = ?env' and arn = "''arn:cert''" and tr = "[]"]
      request config store by blast
  from found missing show ?thesis
    by (simp add: demo_event_def)
qed

text \<open>
  Claim C10. When \<^verbatim>\<open>CERT_TOKEN\<close> is not set or is empty, a request whose authorization
  header is exactly \<^verbatim>\<open>Bearer \<close> passes the check: the answer is that of the
  certificate retrieval, it is never the 403 response, and with a stored bundle it is
  the 200 response that carries the certificate.
\<close>

theorem empty_token_accepts_empty_bearer:
  assumes "environ env ''CERT_TOKEN'' = None \<or> environ env ''CERT_TOKEN'' = Some []"
    and "lookup ev ''headers'' = Some (JObj hs)"
    and "lookup hs ''authorization'' = Some (JStr ''Bearer '')"
  shows "handle_api_request env (JObj ev) tr = retrieve_certificate env tr \<and>
         (\<exists>r tr'. handle_api_request env (JObj ev) tr = (Inr r, tr') \<and> statusCode r \<noteq> 403) \<and>
         (environ env ''CERT_SECRET_ARN'' = Some arn \<and>
          get_secret_value env (tr @ [GetSecretValue arn]) = Inr s \<and>
          json_loads env s = Some (JObj kvs) \<longrightarrow>
            handle_api_request env (JObj ev) tr =
              (Inr \<lparr>statusCode = 200, out_headers = [(''Content-Type'', ''application/json'')],
                    out_body = json_dumps (JObj (filter (\<lambda>kv. fst kv \<noteq> ''account_key'') kvs))\<rparr>,
               tr @ [GetSecretValue arn]))"
proof -
  have pass: "handle_api_request env (JObj ev) tr = retrieve_certificate env tr"
    using assms handle_api_request_authorized[where token = "[]" and hs = hs and ev = ev and env = env]
    by auto
  obtain r tr' where "retrieve_certificate env tr = (Inr r, tr')" "statusCode r \<in> {200, 404, 500}"
    using retrieve_certificate_status by blast
  then have "\<exists>r tr'. retrieve_certificate env tr = (Inr r, tr') \<and> statusCode r \<noteq> 403"
    by auto
  with pass show ?thesis
    by (simp add: retrieve_certificate_found)
qed

theorem empty_token_accepts_empty_bearer_witness:
  "handle_api_request (demo_env Issues (Inr ''bundle'')) (demo_event []) [] =
     (Inr \<lparr>statusCode = 200, out_headers = [(''Content-Type'', ''application/json'')],
           out_body = json_dumps (JObj [(''certificate'', JStr ''LEAF''), (''chain'', JStr ''CHAIN''),
               (''private_key'', JStr ''CERT-KEY''), (''domain'', JStr ''example.com''),
               (''expires'', JStr ''2027-01-01T00:00:00+00:00'')])\<rparr>,
      [GetSecretValue ''arn:cert''])"
proof -
  let ?env = "demo_env Issues (Inr ''bundle'')"
  let ?hs = "[(''authorization'', JStr ''Bearer '')]"
  let ?ev = "[(''headers'', JObj ?hs)]"
  let ?kvs = "[(''certificate'', JStr ''LEAF''), (''chain'', JStr ''CHAIN''),
               (''private_key'', JStr ''CERT-KEY''), (''domain'', JStr ''example.com''),
               (''expires'', JStr ''2027-01-01T00:00:00+00:00''),
               (''account_key'', JStr ''ACCOUNT-KEY'')]"
  have token: "environ ?env ''CERT_TOKEN'' = None \<or> environ ?env ''CERT_TOKEN'' = Some []"
    by (simp add: demo_env_def)
  have headers: "lookup ?ev ''headers'' = Some (JObj ?hs)"
    by simp
  have auth: "lookup ?hs ''authorization'' = Some (JStr ''Bearer '')"
    by simp
  have store: "environ ?env ''CERT_SECRET_ARN'' = Some ''arn:cert''"
    "get_secret_value ?env ([] @ [GetSecretValue ''arn:cert'']) = Inr ''bundle''"
    "json_loads ?env ''bundle'' = Some (JObj ?kvs)"
    by (simp_all add: demo_env_def demo_documents_def)
  have "handle_api_request ?env (JObj ?ev) [] =
      (Inr \<lparr>statusCode = 200, out_headers = [(''Content-Type'', ''application/json'')],
            out_body = json_dumps (JObj (filter (\<lambda>kv. fst kv \<noteq> ''account_key'') ?kvs))\<rparr>,
       [] @ [GetSecretValue ''arn:cert''])"
    using empty_token_accepts_empty_bearer[OF token headers auth, where arn = "''arn:cert''"
      and tr = "[]" and s = "''bundle''" and kvs = ?kvs] store by blast
  then show ?thesis
    by (simp add: demo_event_def)
qed

subsection \<open>The account key\<close>

lemma stored_account_key_returns:
  "\<exists>r. stored_account_key env arn tr = (Inr r, tr @ [GetSecretValue arn])"
  by (auto simp add: stored_account_key_def io_defs loads_def contains_def getitem_def as_str_def
      split: sum.splits option.splits json.splits if_splits)

lemma stored_account_key_loaded:
  assumes "get_secret_value env (tr @ [GetSecretValue arn]) = Inr s"
    and "json_loads env s = Some (JObj kvs)"
    and "lookup kvs ''account_key'' = Some (JStr pem)"
  shows "stored_account_key env arn tr =
           (Inr (load_pem_private_key env (encode pem)), tr @ [GetSecretValue arn])"
  using assms
  by (auto simp add: stored_account_key_def io_defs loads_def contains_def getitem_def as_str_def
      split: option.splits)

text \<open>A key comes out of the store only along the one path that loads it.\<close>

lemma stored_account_key_some:
  assumes "stored_account_key env arn tr = (Inr (Some k), tr')"
  shows "\<exists>s kvs pem.
           get_secret_value env (tr @ [GetSecretValue arn]) = Inr s \<and>
           json_loads env s = Some (JObj kvs) \<and>
           lookup kvs ''account_key'' = Some (JStr pem) \<and>
           load_pem_private_key env (encode pem) = Some k"
proof -
  obtain s where s: "get_secret_value env (tr @ [GetSecretValue arn]) = Inr s"
    using assms
    by (cases "get_secret_value env (tr @ [GetSecretValue arn])")
       (auto simp add: stored_account_key_def io_defs)
  obtain doc where doc: "json_loads env s = Some doc"
    using assms s
    by (cases "json_loads env s") (auto simp add: stored_account_key_def io_defs loads_def)
  obtain kvs where kvs: "doc = JObj kvs"
    using assms s doc
    by (cases doc)
       (auto simp add: stored_account_key_def io_defs loads_def contains_def getitem_def
          split: if_splits)
  obtain v where v: "lookup kvs ''account_key'' = Some v"
    using assms s doc kvs
    by (cases "lookup kvs ''account_key''")
       (auto simp add: stored_account_key_def io_defs loads_def contains_def)
  obtain pem where pem: "v = JStr pem"
    using assms s doc kvs v
    by (cases v)
       (auto simp add: stored_account_key_def io_defs loads_def contains_def getitem_def as_str_def)
  have "load_pem_private_key env (encode pem) = Some k"
    using assms stored_account_key_loaded[OF s doc[unfolded kvs] v[unfolded pem]] by simp
  with s doc kvs v pem show ?thesis by blast
qed

lemma get_or_create_account_key_eq:
  "stored_account_key env arn tr = (Inr r, tr') \<Longrightarrow>
   get_or_create_account_key env arn tr =
     (Inr (case r of None \<Rightarrow> generate_ec_key env tr' | Some k \<Rightarrow> k), tr')"
  by (auto simp add: get_or_create_account_key_def io_defs split: option.splits)

lemma get_or_create_account_key_reuse:
  assumes "get_secret_value env (tr @ [GetSecretValue arn]) = Inr s"
    and "json_loads env s = Some (JObj kvs)"
    and "lookup kvs ''account_key'' = Some (JStr pem)"
    and "load_pem_private_key env (encode pem) = Some k"
  shows "get_or_create_account_key env arn tr = (Inr k, tr @ [GetSecretValue arn])"
  using stored_account_key_loaded[OF assms(1-3)] assms(4)
  by (simp add: get_or_create_account_key_eq)

lemma get_or_create_account_key_fresh:
  assumes "\<not> (\<exists>s kvs pem k.
             get_secret_value env (tr @ [GetSecretValue arn]) = Inr s \<and>
             json_loads env s = Some (JObj kvs) \<and>
             lookup kvs ''account_key'' = Some (JStr pem) \<and>
             load_pem_private_key env (encode pem) = Some k)"
  shows "get_or_create_account_key env arn tr =
           (Inr (generate_ec_key env (tr @ [GetSecretValue arn])), tr @ [GetSecretValue arn])"
proof -
  obtain r where r: "stored_account_key env arn tr = (Inr r, tr @ [GetSecretValue arn])"
    using stored_account_key_returns by blast
  have "r = None"
  proof (cases r)
    case (Some k)
    with r assms stored_account_key_some show ?thesis by blast
  qed simp
  with r show ?thesis
    by (simp add: get_or_create_account_key_eq)
qed

text \<open>
  Claim C3, as the program has it. Getting the account key never raises: the result is
  always a key, after one read of the secret store. The stored key is reused exactly
  when the secret is read, parses to a dict, holds a string under \<^verbatim>\<open>account_key\<close> and
  that string loads as a private key. In every other case a newly generated key is the
  result: the read fails, the secret does not parse, the document is not a dict, the
  dict has no \<^verbatim>\<open>account_key\<close>, its value is not a string, or the string does not load.
\<close>

theorem account_key_reused_or_created:
  "(\<exists>k. get_or_create_account_key env arn tr = (Inr k, tr @ [GetSecretValue arn])) \<and>
   (get_secret_value env (tr @ [GetSecretValue arn]) = Inr s \<and>
    json_loads env s = Some (JObj kvs) \<and>
    lookup kvs ''account_key'' = Some (JStr pem) \<longrightarrow>
      get_or_create_account_key env arn tr =
        (Inr (case load_pem_private_key env (encode pem) of
                Some k \<Rightarrow> k
              | None \<Rightarrow> generate_ec_key env (tr @ [GetSecretValue arn])),
         tr @ [GetSecretValue arn])) \<and>
   (get_secret_value env (tr @ [GetSecretValue arn]) = Inr s \<and>
    json_loads env s = Some (JObj kvs) \<and>
    lookup kvs ''account_key'' = None \<longrightarrow>
      get_or_create_account_key env arn tr =
        (Inr (generate_ec_key env (tr @ [GetSecretValue arn])), tr @ [GetSecretValue arn])) \<and>
   (get_secret_value env (tr @ [GetSecretValue arn]) = Inl e \<longrightarrow>
      get_or_create_account_key env arn tr =
        (Inr (generate_ec_key env (tr @ [GetSecretValue arn])), tr @ [GetSecretValue arn])) \<and>
   (get_secret_value env (tr @ [GetSecretValue arn]) = Inr s \<and>
    json_loads env s = None \<longrightarrow>
      get_or_create_account_key env arn tr =
        (Inr (generate_ec_key env (tr @ [GetSecretValue arn])), tr @ [GetSecretValue arn])) \<and>
   (get_secret_value env (tr @ [GetSecretValue arn]) = Inr s \<and>
    json_loads env s = Some doc \<and> (\<forall>fields. doc \<noteq> JObj fields) \<longrightarrow>
      get_or_create_account_key env arn tr =
        (Inr (generate_ec_key env (tr @ [GetSecretValue arn])), tr @ [GetSecretValue arn])) \<and>
   (get_secret_value env (tr @ [GetSecretValue arn]) = Inr s \<and>
    json_loads env s = Some (JObj kvs) \<and>
    lookup kvs ''account_key'' = Some v \<and> (\<forall>text. v \<noteq> JStr text) \<longrightarrow>
      get_or_create_account_key env arn tr =
        (Inr (generate_ec_key env (tr @ [GetSecretValue arn])), tr @ [GetSecretValue arn])) \<and>
   (\<not> (\<exists>s' kvs' pem' k'.
          get_secret_value env (tr @ [GetSecretValue arn]) = Inr s' \<and>
          json_loads env s' = Some (JObj kvs') \<and>
          lookup kvs' ''account_key'' = Some (JStr pem') \<and>
          load_pem_private_key env (encode pem') = Some k') \<longrightarrow>
      get_or_create_account_key env arn tr =
        (Inr (generate_ec_key env (tr @ [GetSecretValue arn])), tr @ [GetSecretValue arn]))"
proof (intro conjI impI)
  obtain r where "stored_account_key env arn tr = (Inr r, tr @ [GetSecretValue arn])"
    using stored_account_key_returns by blast
  then show "\<exists>k. get_or_create_account_key env arn tr = (Inr k, tr @ [GetSecretValue arn])"
    by (simp add: get_or_create_account_key_eq)
next
  assume "get_secret_value env (tr @ [GetSecretValue arn]) = Inr s \<and>
    json_loads env s = Some (JObj kvs) \<and> lookup kvs ''account_key'' = Some (JStr pem)"
  then have "stored_account_key env arn tr =
      (Inr (load_pem_private_key env (encode pem)), tr @ [GetSecretValue arn])"
    by (simp add: stored_account_key_loaded)
  then show "get_or_create_account_key env arn tr =
        (Inr (case load_pem_private_key env (encode pem) of
                Some k \<Rightarrow> k
              | None \<Rightarrow> generate_ec_key env (tr @ [GetSecretValue arn])),
         tr @ [GetSecretValue arn])"
    by (simp add: get_or_create_account_key_eq split: option.splits)
next
  assume "get_secret_value env (tr @ [GetSecretValue arn]) = Inr s \<and>
    json_loads env s = Some (JObj kvs) \<and> lookup kvs ''account_key'' = None"
  then show "get_or_create_account_key env arn tr =
        (Inr (generate_ec_key env (tr @ [GetSecretValue arn])), tr @ [GetSecretValue arn])"
    by (intro get_or_create_account_key_fresh) auto
next
  assume "get_secret_value env (tr @ [GetSecretValue arn]) = Inl e"
  then show "get_or_create_account_key env arn tr =
        (Inr (generate_ec_key env (tr @ [GetSecretValue arn])), tr @ [GetSecretValue arn])"
    by (intro get_or_create_account_key_fresh) auto
next
  assume "get_secret_value env (tr @ [GetSecretValue arn]) = Inr s \<and> json_loads env s = None"
  then show "get_or_create_account_key env arn tr =
        (Inr (generate_ec_key env (tr @ [GetSecretValue arn])), tr @ [GetSecretValue arn])"
    by (intro get_or_create_account_key_fresh) auto
next
  assume "get_secret_value env (tr @ [GetSecretValue arn]) = Inr s \<and>
    json_loads env s = Some doc \<and> (\<forall>fields. doc \<noteq> JObj fields)"
  then show "get_or_create_account_key env arn tr =
        (Inr (generate_ec_key env (tr @ [GetSecretValue arn])), tr @ [GetSecretValue arn])"
    by (intro get_or_create_account_key_fresh) auto
next
  assume "get_secret_value env (tr @ [GetSecretValue arn]) = Inr s \<and>
    json_loads env s = Some (JObj kvs) \<and>
    lookup kvs ''account_key'' = Some v \<and> (\<forall>text. v \<noteq> JStr text)"
  then show "get_or_create_account_key env arn tr =
        (Inr (generate_ec_key env (tr @ [GetSecretValue arn])), tr @ [GetSecretValue arn])"
    by (intro get_or_create_account_key_fresh) auto
next
  assume "\<not> (\<exists>s' kvs' pem' k'.
          get_secret_value env (tr @ [GetSecretValue arn]) = Inr s' \<and>
          json_loads env s' = Some (JObj kvs') \<and>
          lookup kvs' ''account_key'' = Some (JStr pem') \<and>
          load_pem_private_key env (encode pem') = Some k')"
  then show "get_or_create_account_key env arn tr =
        (Inr (generate_ec_key env (tr @ [GetSecretValue arn])), tr @ [GetSecretValue arn])"
    by (rule get_or_create_account_key_fresh)
qed

theorem account_key_reused_or_created_witness:
  "get_or_create_account_key (demo_env Issues (Inr ''bundle'')) ''arn:cert'' [] =
     (Inr (ECKey 5 7), [GetSecretValue ''arn:cert''])
   \<and> get_or_create_account_key (demo_env Issues (Inr ''bad-bundle'')) ''arn:cert'' [] =
     (Inr (ECKey 11 13), [GetSecretValue ''arn:cert''])
   \<and> get_or_create_account_key (demo_env Issues (Inr ''{}'')) ''arn:cert'' [] =
     (Inr (ECKey 11 13), [GetSecretValue ''arn:cert''])
   \<and> get_or_create_account_key (demo_env Issues (Inl ResourceNotFoundException)) ''arn:cert'' [] =
     (Inr (ECKey 11 13), [GetSecretValue ''arn:cert''])
   \<and> get_or_create_account_key (demo_env Issues (Inr ''not json'')) ''arn:cert'' [] =
     (Inr (ECKey 11 13), [GetSecretValue ''arn:cert''])
   \<and> get_or_create_account_key (demo_odd_env (Inr ''list'')) ''arn:cert'' [] =
     (Inr (ECKey 11 13), [GetSecretValue ''arn:cert''])
   \<and> get_or_create_account_key (demo_odd_env (Inr ''number'')) ''arn:cert'' [] =
     (Inr (ECKey 11 13), [GetSecretValue ''arn:cert''])"
proof -
  let ?kvs = "[(''certificate'', JStr ''LEAF''), (''chain'', JStr ''CHAIN''),
               (''private_key'', JStr ''CERT-KEY''), (''domain'', JStr ''example.com''),
               (''expires'', JStr ''2027-01-01T00:00:00+00:00''),
               (''account_key'', JStr ''ACCOUNT-KEY'')]"
  let ?tr = "[] @ [GetSecretValue ''arn:cert'']"
  let ?stored = "demo_env Issues (Inr ''bundle'')"
  let ?bad = "demo_env Issues (Inr ''bad-bundle'')"
  let ?empty = "demo_env Issues (Inr ''{}'')"
  let ?none = "demo_env Issues (Inl ResourceNotFoundException)"
  let ?text = "demo_env Issues (Inr ''not json'')"
  let ?list = "demo_odd_env (Inr ''list'')"
  let ?number = "demo_odd_env (Inr ''number'')"
  have stored: "get_secret_value ?stored ?tr = Inr ''bundle''"
    "json_loads ?stored ''bundle'' = Some (JObj ?kvs)"
    "lookup ?kvs ''account_key'' = Some (JStr ''ACCOUNT-KEY'')"
    "load_pem_private_key ?stored (encode ''ACCOUNT-KEY'') = Some (ECKey 5 7)"
    by (simp_all add: demo_env_def demo_documents_def)
  have bad: "get_secret_value ?bad ?tr = Inr ''bad-bundle''"
    "json_loads ?bad ''bad-bundle'' = Some (JObj [(''account_key'', JStr ''garbage'')])"
    "lookup [(''account_key'', JStr ''garbage'')] ''account_key'' = Some (JStr ''garbage'')"
    "load_pem_private_key ?bad (encode ''garbage'') = None"
    "generate_ec_key ?bad ?tr = ECKey 11 13"
    by (simp_all add: demo_env_def demo_documents_def encode_def encode_char_def)
  have empty: "get_secret_value ?empty ?tr = Inr ''{}''"
    "json_loads ?empty ''{}'' = Some (JObj [])"
    "lookup [] ''account_key'' = None"
    "generate_ec_key ?empty ?tr = ECKey 11 13"
    by (simp_all add: demo_env_def demo_documents_def)
  have none: "get_secret_value ?none ?tr = Inl ResourceNotFoundException"
    "generate_ec_key ?none ?tr = ECKey 11 13"
    by (simp_all add: demo_env_def)
  have unparsed: "get_secret_value ?text ?tr = Inr ''not json''"
    "json_loads ?text ''not json'' = None"
    "generate_ec_key ?text ?tr = ECKey 11 13"
    by (simp_all add: demo_env_def demo_documents_def)
  have nondict: "get_secret_value ?list ?tr = Inr ''list''"
    "json_loads ?list ''list'' = Some (JArr [JStr ''account_key''])"
    "\<forall>fields. JArr [JStr ''account_key''] \<noteq> JObj fields"
    "generate_ec_key ?list ?tr = ECKey 11 13"
    by (simp_all add: demo_odd_env_def demo_env_def)
  have number: "get_secret_value ?number ?tr = Inr ''number''"
    "json_loads ?number ''number'' = Some (JObj [(''account_key'', JInt 7)])"
    "lookup [(''account_key'', JInt 7)] ''account_key'' = Some (JInt 7)"
    "\<forall>text. JInt 7 \<noteq> JStr text"
    "generate_ec_key ?number ?tr = ECKey 11 13"
    by (simp_all add: demo_odd_env_def demo_env_def)
  have "get_or_create_account_key ?stored ''arn:cert'' [] =
      (Inr (case load_pem_private_key ?stored (encode ''ACCOUNT-KEY'') of
                Some k \<Rightarrow> k | None \<Rightarrow> generate_ec_key ?stored ?tr), ?tr)"
    using account_key_reused_or_created[where env = ?stored and arn = "''arn:cert''" and tr = "[]"
        and s = "''bundle''" and kvs = ?kvs and pem = "''ACCOUNT-KEY''"] stored
    by blast
  then have 1: "get_or_create_account_key ?stored ''arn:cert'' [] = (Inr (ECKey 5 7), ?tr)"
    by (simp only: stored(4) option.case)
  have "get_or_create_account_key ?bad ''arn:cert'' [] =
      (Inr (case load_pem_private_key ?bad (encode ''garbage'') of
                Some k \<Rightarrow> k | None \<Rightarrow> generate_ec_key ?bad ?tr), ?tr)"
    using account_key_reused_or_created[where env = ?bad and arn = "''arn:cert''" and tr = "[]"
        and s = "''bad-bundle''" and kvs = "[(''account_key'', JStr ''garbage'')]"
        and pem = "''garbage''"] bad
    by blast
  then have 2: "get_or_create_account_key ?bad ''arn:cert'' [] = (Inr (ECKey 11 13), ?tr)"
    by (simp only: bad(4,5) option.case)
  have "get_or_create_account_key ?empty ''arn:cert'' [] = (Inr (generate_ec_key ?empty ?tr), ?tr)"
    using account_key_reused_or_created[where env = ?empty and arn = "''arn:cert''" and tr = "[]"
        and s = "''{}''" and kvs = "[]"] empty
    by blast
  then have 3: "get_or_create_account_key ?empty ''arn:cert'' [] = (Inr (ECKey 11 13), ?tr)"
    by (simp only: empty(4))
  have "get_or_create_account_key ?none ''arn:cert'' [] = (Inr (generate_ec_key ?none ?tr), ?tr)"
    using account_key_reused_or_created[where env = ?none and arn = "''arn:cert''" and tr = "[]"
        and e = ResourceNotFoundException] none
    by blast
  then have 4: "get_or_create_account_key ?none ''arn:cert'' [] = (Inr (ECKey 11 13), ?tr)"
    by (simp only: none(2))
  have "get_or_create_account_key ?text ''arn:cert'' [] = (Inr (generate_ec_key ?text ?tr), ?tr)"
    using account_key_reused_or_created[where env = ?text and arn = "''arn:cert''" and tr = "[]"
        and s = "''not json''"] unparsed
    by blast
  then have 5: "get_or_create_account_key ?text ''arn:cert'' [] = (Inr (ECKey 11 13), ?tr)"
    by (simp only: unparsed(3))
  have "get_or_create_account_key ?list ''arn:cert'' [] = (Inr (generate_ec_key ?list ?tr), ?tr)"
    using account_key_reused_or_created[where env = ?list and arn = "''arn:cert''" and tr = "[]"
        and s = "''list''" and doc = "JArr [JStr ''account_key'']"] nondict
    by blast
  then have 6: "get_or_create_account_key ?list ''arn:cert'' [] = (Inr (ECKey 11 13), ?tr)"
    by (simp only: nondict(4))
  have "get_or_create_account_key ?number ''arn:cert'' [] = (Inr (generate_ec_key ?number ?tr), ?tr)"
    using account_key_reused_or_created[where env = ?number and arn = "''arn:cert''" and tr = "[]"
        and s = "''number''" and kvs = "[(''account_key'', JInt 7)]" and v = "JInt 7"] number
    by blast
  then have 7: "get_or_create_account_key ?number ''arn:cert'' [] = (Inr (ECKey 11 13), ?tr)"
    by (simp only: number(5))
  from 1 2 3 4 5 6 7 show ?thesis
    by simp
qed

text \<open>
  The stored dict holds key bytes that are not a key: no error is signalled, a new key
  is generated.
\<close>

theorem malformed_account_key_counterexample:
  "get_or_create_account_key (demo_env Issues (Inr ''bad-bundle'')) ''arn:cert'' [] =
     (Inr (ECKey 11 13), [GetSecretValue ''arn:cert''])"
  by (simp add: get_or_create_account_key_def stored_account_key_def io_defs loads_def
      contains_def getitem_def as_str_def demo_env_def demo_documents_def encode_def encode_char_def)

subsection \<open>The payload field of a signed request\<close>

lemma to_bytes_ok: "n < 2 ^ 256 \<Longrightarrow> to_bytes 32 n = Inr (be_bytes 32 n)"
  by (simp add: to_bytes_def)

lemma acme_jws_p256:
  assumes "x < 2 ^ 256" "y < 2 ^ 256"
    and "\<forall>m. fst (sign (ECKey x y) m) < 2 ^ 256 \<and> snd (sign (ECKey x y) m) < 2 ^ 256"
  shows "\<exists>pr sg. acme_jws sign url (ECKey x y) account_url nonce payload =
           Inr (JObj [(''protected'', JStr pr), (''payload'', JStr (acme_payload_b64 payload)),
                      (''signature'', JStr sg)])"
  using assms by (simp add: acme_jws_def bindE_def to_bytes_ok Let_def)

text \<open>
  Claim C8, as the program has it. For a P-256 key and a signer whose signatures fit,
  the JWS is built, and its payload field is the empty string for a null payload and
  otherwise the base64url text of \<^verbatim>\<open>json.dumps(payload)\<close> with the default separators
  \<open>'', ''\<close> and \<open>'': ''\<close>; the field never holds a padding character.
\<close>

theorem jws_payload_field:
  assumes "p256_key k"
    and "\<forall>m. fst (sign k m) < 2 ^ 256 \<and> snd (sign k m) < 2 ^ 256"
  shows "\<exists>pr sg. acme_jws sign url k account_url nonce payload =
           Inr (JObj [(''protected'', JStr pr),
                      (''payload'',
                         JStr (if payload = JNull then []
                               else base64url_encode (Str (dumps False '', '' '': '' payload)))),
                      (''signature'', JStr sg)])
         \<and> CHR ''='' \<notin> set (if payload = JNull then []
                               else base64url_encode (Str (dumps False '', '' '': '' payload)))"
proof -
  obtain x y where k: "k = ECKey x y" "x < 2 ^ 256" "y < 2 ^ 256"
    using assms(1) by (cases k) (simp_all add: p256_key_def)
  have field: "acme_payload_b64 payload =
      (if payload = JNull then [] else base64url_encode (Str (dumps False '', '' '': '' payload)))"
    by (simp add: acme_payload_b64_def json_dumps_def)
  show ?thesis
    using acme_jws_p256[OF k(2,3), of sign url account_url nonce payload] assms(2)
    by (simp add: k(1) field base64url_encode_no_pad)
qed

theorem jws_payload_field_witness:
  "(\<exists>pr sg. acme_jws (\<lambda>k m. (1, 2)) (JStr ''https://ca.test/authz/1'') (ECKey 5 7)
       (Some ''https://ca.test/acct/1'') (Some ''nonce0'') JNull =
     Inr (JObj [(''protected'', JStr pr), (''payload'', JStr []), (''signature'', JStr sg)]))
   \<and> (\<exists>pr sg. acme_jws (\<lambda>k m. (1, 2)) (JStr ''https://ca.test/chall/1'') (ECKey 5 7)
       (Some ''https://ca.test/acct/1'') (Some ''nonce0'') (JObj []) =
     Inr (JObj [(''protected'', JStr pr), (''payload'', JStr ''e30''), (''signature'', JStr sg)]))"
proof -
  have key: "p256_key (ECKey 5 7)"
    by (simp add: p256_key_def)
  have sign: "\<forall>m. fst ((\<lambda>k m. (1 :: nat, 2 :: nat)) (ECKey 5 7) m) < 2 ^ 256 \<and>
                  snd ((\<lambda>k m. (1 :: nat, 2 :: nat)) (ECKey 5 7) m) < 2 ^ 256"
    by simp
  have empty: "base64url_encode (Str ''{}'') = ''e30''"
    by (simp add: base64url_encode_str encode_def encode_char_def b64_char_def b64_alphabet_def)
  show ?thesis
    using jws_payload_field[OF key sign, of "JStr ''https://ca.test/authz/1''"
        "Some ''https://ca.test/acct/1''" "Some ''nonce0''" JNull]
      jws_payload_field[OF key sign, of "JStr ''https://ca.test/chall/1''"
        "Some ''https://ca.test/acct/1''" "Some ''nonce0''" "JObj []"]
    by (simp add: empty)
qed


lemma acme_jws_payload:
  assumes "x < 2 ^ 256" "y < 2 ^ 256"
    and "\<forall>m. fst (sign (ECKey x y) m) < 2 ^ 256 \<and> snd (sign (ECKey x y) m) < 2 ^ 256"
  shows "bindE (acme_jws sign url (ECKey x y) account_url nonce payload)
           (\<lambda>jws. getitem jws ''payload'') = Inr (JStr (acme_payload_b64 payload))"
  using assms by (simp add: acme_jws_def bindE_def to_bytes_ok Let_def getitem_def)

lemma tos_default:
  "json_dumps (JObj [(''termsOfServiceAgreed'', JBool True)]) =
     ''{'' @ [CHR 0x22] @ ''termsOfServiceAgreed'' @ [CHR 0x22] @ '': true}''"
  by (simp add: json_dumps_def quote_def escape_char_def)

lemma tos_compact:
  "dumps False '','' '':'' (JObj [(''termsOfServiceAgreed'', JBool True)]) =
     ''{'' @ [CHR 0x22] @ ''termsOfServiceAgreed'' @ [CHR 0x22] @ '':true}''"
  by (simp add: quote_def escape_char_def)

lemma b64_tos_default:
  "base64url_encode (Str (''{'' @ [CHR 0x22] @ ''termsOfServiceAgreed'' @ [CHR 0x22] @ '': true}'')) =
     ''eyJ0ZXJtc09mU2VydmljZUFncmVlZCI6IHRydWV9''"
  by (simp add: base64url_encode_str encode_def encode_char_def b64_char_def b64_alphabet_def)

lemma b64_tos_compact:
  "base64url_encode (Str (''{'' @ [CHR 0x22] @ ''termsOfServiceAgreed'' @ [CHR 0x22] @ '':true}'')) =
     ''eyJ0ZXJtc09mU2VydmljZUFncmVlZCI6dHJ1ZX0''"
  by (simp add: base64url_encode_str encode_def encode_char_def b64_char_def b64_alphabet_def)


text \<open>
  The payload of the account registration: the field is the encoding of the text with a
  space after the colon, which is not the encoding of the compact text.
\<close>

theorem jws_payload_not_compact_counterexample:
  "bindE (acme_jws (\<lambda>k m. (1, 2)) (JStr ''https://ca.test/acct'') (ECKey 5 7) None (Some ''nonce0'')
            (JObj [(''termsOfServiceAgreed'', JBool True)]))
         (\<lambda>jws. getitem jws ''payload'') =
     Inr (JStr ''eyJ0ZXJtc09mU2VydmljZUFncmVlZCI6IHRydWV9'')
   \<and> base64url_encode (Str (dumps False '','' '':'' (JObj [(''termsOfServiceAgreed'', JBool True)]))) =
     ''eyJ0ZXJtc09mU2VydmljZUFncmVlZCI6dHJ1ZX0''"
proof
  let ?tos = "JObj [(''termsOfServiceAgreed'', JBool True)]"
  have "acme_payload_b64 ?tos = base64url_encode (Str (json_dumps ?tos))"
    by (simp add: acme_payload_b64_def)
  also have "\<dots> = ''eyJ0ZXJtc09mU2VydmljZUFncmVlZCI6IHRydWV9''"
    by (simp only: tos_default b64_tos_default)
  finally have field: "acme_payload_b64 ?tos = ''eyJ0ZXJtc09mU2VydmljZUFncmVlZCI6IHRydWV9''" .
  have "bindE (acme_jws (\<lambda>k m. (1, 2)) (JStr ''https://ca.test/acct'') (ECKey 5 7) None
                 (Some ''nonce0'') ?tos)
              (\<lambda>jws. getitem jws ''payload'') = Inr (JStr (acme_payload_b64 ?tos))"
    by (rule acme_jws_payload) simp_all
  then show "bindE (acme_jws (\<lambda>k m. (1, 2)) (JStr ''https://ca.test/acct'') (ECKey 5 7) None
                 (Some ''nonce0'') ?tos)
              (\<lambda>jws. getitem jws ''payload'') =
             Inr (JStr ''eyJ0ZXJtc09mU2VydmljZUFncmVlZCI6IHRydWV9'')"
    by (simp only: field)
  show "base64url_encode (Str (dumps False '','' '':'' ?tos)) =
          ''eyJ0ZXJtc09mU2VydmljZUFncmVlZCI6dHJ1ZX0''"
    by (simp only: tos_compact b64_tos_compact)
qed

subsection \<open>The JWK thumbprint\<close>

















subsection \<open>Splitting the downloaded chain\<close>

lemma pem_block_eq: "pem_block b = begin_line @ b @ end_marker @ [CHR 0x0A]"
  by (simp add: pem_block_def begin_line_def)

lemma split_from_newline:
  "split_from end_marker acc (CHR 0x0A # rest) = split_from end_marker (CHR 0x0A # acc) rest"
  by (simp add: end_marker_def)

lemma split_from_begin_line:
  "split_from end_marker acc (begin_line @ rest) = split_from end_marker (rev begin_line @ acc) rest"
  by (simp add: end_marker_def begin_line_def)

lemma split_from_body:
  "CHR ''-'' \<notin> set b \<Longrightarrow>
   split_from end_marker acc (b @ rest) = split_from end_marker (rev b @ acc) rest"
proof (induction b arbitrary: acc)
  case Nil
  then show ?case by simp
next
  case (Cons c b)
  then have "\<not> prefix end_marker (c # b @ rest)"
    by (auto simp add: end_marker_def)
  with Cons show ?case by simp
qed

lemma split_from_marker:
  "split_from end_marker acc (end_marker @ rest) = rev acc # split_from end_marker [] rest"
proof -
  have "end_marker \<noteq> []" by (simp add: end_marker_def)
  then obtain c cs where m: "end_marker = c # cs" by (cases end_marker) auto
  have "split_from end_marker acc (c # cs @ rest) =
          rev acc # split_from end_marker [] (drop (length end_marker) (c # cs @ rest))"
    using m by (subst split_from.simps) (metis append_Cons prefixI list.distinct(1))
  then show ?thesis
    using m by (metis append_Cons append_eq_conv_conj)
qed

lemma split_from_block:
  assumes "CHR ''-'' \<notin> set b"
  shows "split_from end_marker acc (pem_block b @ rest) =
           (rev acc @ begin_line @ b) # split_from end_marker [CHR 0x0A] rest"
proof -
  have "split_from end_marker acc (pem_block b @ rest) =
          split_from end_marker acc (begin_line @ b @ end_marker @ CHR 0x0A # rest)"
    by (simp add: pem_block_eq)
  also have "\<dots> = split_from end_marker (rev begin_line @ acc) (b @ end_marker @ CHR 0x0A # rest)"
    by (rule split_from_begin_line)
  also have "\<dots> = split_from end_marker (rev b @ rev begin_line @ acc) (end_marker @ CHR 0x0A # rest)"
    using assms by (rule split_from_body)
  also have "\<dots> = rev (rev b @ rev begin_line @ acc) # split_from end_marker [] (CHR 0x0A # rest)"
    by (rule split_from_marker)
  also have "\<dots> = (rev acc @ begin_line @ b) # split_from end_marker [CHR 0x0A] rest"
    by (simp only: split_from_newline) simp
  finally show ?thesis .
qed

lemma split_from_blocks:
  assumes "\<forall>b \<in> set bs. CHR ''-'' \<notin> set b"
  shows "split_from end_marker [CHR 0x0A] (concat (map pem_block bs)) =
           map (\<lambda>b. CHR 0x0A # begin_line @ b) bs @ [[CHR 0x0A]]"
  using assms by (induction bs) (simp_all add: split_from_block)

lemma str_split_blocks:
  assumes "\<forall>b \<in> set (b0 # bs). CHR ''-'' \<notin> set b"
  shows "str_split end_marker (concat (map pem_block (b0 # bs))) =
           (begin_line @ b0) # map (\<lambda>b. CHR 0x0A # begin_line @ b) bs @ [[CHR 0x0A]]"
  using assms by (simp add: str_split_def split_from_block split_from_blocks)

lemma join_blocks:
  "join end_marker (map (\<lambda>b. CHR 0x0A # begin_line @ b) bs @ [[CHR 0x0A]]) =
     concat (map (\<lambda>b. CHR 0x0A # begin_line @ b @ end_marker) bs) @ [CHR 0x0A]"
proof (induction bs)
  case Nil
  then show ?case by simp
next
  case (Cons b bs)
  then show ?case by (cases bs) simp_all
qed

lemma concat_blocks_shift:
  "concat (map (\<lambda>b. CHR 0x0A # begin_line @ b @ end_marker) bs) @ [CHR 0x0A] =
     CHR 0x0A # concat (map pem_block bs)"
  by (induction bs) (simp_all add: pem_block_eq)

lemma pem_block_ends: "\<exists>m. pem_block b = CHR ''-'' # m @ [CHR ''-'', CHR 0x0A]"
  by (simp add: pem_block_def end_marker_def)

lemma blocks_ends:
  assumes "bs \<noteq> []"
  shows "\<exists>m. concat (map pem_block bs) = CHR ''-'' # m @ [CHR ''-'', CHR 0x0A]"
  using assms
proof (induction bs)
  case Nil
  then show ?case by simp
next
  case (Cons b bs)
  obtain m where m: "pem_block b = CHR ''-'' # m @ [CHR ''-'', CHR 0x0A]"
    using pem_block_ends by blast
  show ?case
  proof (cases "bs = []")
    case True
    with m show ?thesis by simp
  next
    case False
    with Cons.IH obtain m' where "concat (map pem_block bs) = CHR ''-'' # m' @ [CHR ''-'', CHR 0x0A]"
      by blast
    with m have "concat (map pem_block (b # bs)) =
        CHR ''-'' # (m @ [CHR ''-'', CHR 0x0A] @ CHR ''-'' # m') @ [CHR ''-'', CHR 0x0A]"
      by simp
    then show ?thesis by blast
  qed
qed

lemma strip_framed:
  "strip (CHR 0x0A # CHR ''-'' # m @ [CHR ''-'', CHR 0x0A]) = CHR ''-'' # m @ [CHR ''-'']"
  by (simp add: strip_def isspace_def)

lemma split_from_nonempty: "split_from sep acc s \<noteq> []"
  by (induction sep acc s rule: split_from.induct) auto

lemma split_chain_shape:
  "\<exists>leaf chain. split_chain s = Inr (leaf, chain) \<and>
     suffix (end_marker @ [CHR 0x0A]) leaf \<and> (chain = [] \<or> last chain = CHR 0x0A)"
proof (cases "str_split end_marker s")
  case Nil
  then show ?thesis
    using split_from_nonempty by (simp add: str_split_def)
next
  case (Cons first rest)
  then show ?thesis
    by (simp add: split_chain_def Let_def suffix_def)
qed

lemma split_chain_of_blocks:
  assumes "\<forall>b \<in> set (b0 # bs). CHR ''-'' \<notin> set b"
  shows "split_chain (concat (map pem_block (b0 # bs))) =
           Inr (pem_block b0, concat (map pem_block bs))"
proof -
  let ?rest = "map (\<lambda>b. CHR 0x0A # begin_line @ b) bs @ [[CHR 0x0A]]"
  have parts: "str_split end_marker (concat (map pem_block (b0 # bs))) = (begin_line @ b0) # ?rest"
    using assms by (rule str_split_blocks)
  have joined: "join end_marker ?rest = CHR 0x0A # concat (map pem_block bs)"
    by (simp only: join_blocks concat_blocks_shift)
  have chain: "(let chain = strip (CHR 0x0A # concat (map pem_block bs))
                in if chain \<noteq> [] then chain @ [CHR 0x0A] else chain) = concat (map pem_block bs)"
  proof (cases "bs = []")
    case True
    then show ?thesis by (simp add: strip_def isspace_def)
  next
    case False
    then obtain m where m: "concat (map pem_block bs) = CHR ''-'' # m @ [CHR ''-'', CHR 0x0A]"
      using blocks_ends by blast
    show ?thesis
      by (simp only: m strip_framed Let_def) simp
  qed
  have "split_chain (concat (map pem_block (b0 # bs))) =
          Inr ((begin_line @ b0) @ end_marker @ [CHR 0x0A],
               (let chain = strip (CHR 0x0A # concat (map pem_block bs))
                in if chain \<noteq> [] then chain @ [CHR 0x0A] else chain))"
    by (simp only: split_chain_def parts joined list.case Let_def)
  then show ?thesis
    by (simp only: chain pem_block_eq append_assoc)
qed

text \<open>
  Claim C7. Splitting never fails; the leaf always ends with the end marker and a line
  break, and the chain is empty or ends with a line break. For a stream of certificate
  blocks the leaf is the first block and the chain is the remaining blocks, one after
  the other: the second block for two blocks, the empty string for one.
\<close>

theorem split_chain_blocks:
  "(\<exists>leaf chain. split_chain s = Inr (leaf, chain) \<and>
      suffix (end_marker @ [CHR 0x0A]) leaf \<and> (chain = [] \<or> last chain = CHR 0x0A)) \<and>
   ((\<forall>b \<in> set (b0 # bs). CHR ''-'' \<notin> set b) \<longrightarrow>
      split_chain (concat (map pem_block (b0 # bs))) =
        Inr (pem_block b0, concat (map pem_block bs))) \<and>
   (CHR ''-'' \<notin> set b1 \<and> CHR ''-'' \<notin> set b2 \<longrightarrow>
      split_chain (pem_block b1 @ pem_block b2) = Inr (pem_block b1, pem_block b2)) \<and>
   (CHR ''-'' \<notin> set b1 \<longrightarrow> split_chain (pem_block b1) = Inr (pem_block b1, []))"
  using split_chain_shape[of s] split_chain_of_blocks[of b0 bs]
    split_chain_of_blocks[of b1 "[b2]"] split_chain_of_blocks[of b1 "[]"]
  by simp

theorem split_chain_blocks_witness:
  "split_chain (pem_block ''AAAA'' @ pem_block ''BBBB'') = Inr (pem_block ''AAAA'', pem_block ''BBBB'')
   \<and> split_chain (pem_block ''AAAA'') = Inr (pem_block ''AAAA'', [])"
  using split_chain_blocks[of _ _ _ "''AAAA''" "''BBBB''"] by simp

subsection \<open>The nonce after an error response\<close>

lemma str_nat_1: "str_nat (Suc 0) = ''1''"
  by code_simp

text \<open>
  Claim C1 at an error response. The authority answers a signed request with status 404
  and the header \<^verbatim>\<open>Replay-Nonce: nonce1\<close>. The request raises the exception that
  carries the status code and the body; the nonce of the response is in neither the
  result nor the exception, so the caller is left with the nonce it sent.
\<close>

theorem error_response_drops_nonce:
  "fst (acme_request (demo_env Issues (Inl ResourceNotFoundException)) (JStr ''https://ca.test/gone'')
          (ECKey 5 7) (Some ''https://ca.test/acct/1'') (Some ''nonce0'') JNull []) =
     Inl (AcmeError 404 ''not found'')
   \<and> urlopen (demo_env Issues (Inl ResourceNotFoundException))
        (snd (acme_request (demo_env Issues (Inl ResourceNotFoundException)) (JStr ''https://ca.test/gone'')
          (ECKey 5 7) (Some ''https://ca.test/acct/1'') (Some ''nonce0'') JNull [])) =
     HTTPError 404 [(''Replay-Nonce'', ''nonce1'')] ''not found''"
  by (simp add: acme_request_def acme_jws_def to_bytes_def bindE_def io_defs demo_env_def
      demo_urlopen_def Let_def str_nat_1)

subsection \<open>What the steps append to the trace\<close>

lemma appendsD:
  "appends P m \<Longrightarrow> m tr = (r, tr') \<Longrightarrow> \<exists>ext. tr' = tr @ ext \<and> list_all P ext"
  by (metis appends_def snd_conv)

lemma appendsI:
  "(\<And>tr. \<exists>ext. snd (m tr) = tr @ ext \<and> list_all P ext) \<Longrightarrow> appends P m"
  by (simp add: appends_def)

lemma appends_ret [intro!]: "appends P (ret x)"
  by (simp add: appends_def ret_def)

lemma appends_raise [intro!]: "appends P (raise e)"
  by (simp add: appends_def raise_def)

lemma appends_lift [intro!]: "appends P (lift r)"
  by (simp add: appends_def lift_def)

lemma appends_draw [intro!]: "appends P (draw oracle)"
  by (simp add: appends_def draw_def)

lemma appends_call: "P ev \<Longrightarrow> appends P (call ev oracle)"
  by (simp add: appends_def call_def)

lemma appends_sleep: "P (Sleep n) \<Longrightarrow> appends P (sleep n)"
  by (simp add: appends_def sleep_def)

lemma appends_bnd:
  assumes "appends P m" and "\<And>x. appends P (f x)"
  shows "appends P (bnd m f)"
proof (rule appendsI)
  fix tr
  obtain r tr1 where m: "m tr = (r, tr1)" by (cases "m tr")
  then obtain ext1 where e1: "tr1 = tr @ ext1" "list_all P ext1"
    using assms(1) appendsD by blast
  show "\<exists>ext. snd (bnd m f tr) = tr @ ext \<and> list_all P ext"
  proof (cases r)
    case (Inl e)
    with m e1 show ?thesis by (auto simp add: bnd_def)
  next
    case (Inr x)
    obtain r2 tr2 where f: "f x tr1 = (r2, tr2)" by (cases "f x tr1")
    then obtain ext2 where e2: "tr2 = tr1 @ ext2" "list_all P ext2"
      using assms(2) appendsD by blast
    with Inr m f e1 show ?thesis by (auto simp add: bnd_def)
  qed
qed

lemma appends_catch:
  assumes "appends P m" and "\<And>e. appends P (h e)"
  shows "appends P (catch m h)"
proof (rule appendsI)
  fix tr
  obtain r tr1 where m: "m tr = (r, tr1)" by (cases "m tr")
  then obtain ext1 where e1: "tr1 = tr @ ext1" "list_all P ext1"
    using assms(1) appendsD by blast
  show "\<exists>ext. snd (catch m h tr) = tr @ ext \<and> list_all P ext"
  proof (cases r)
    case (Inr x)
    with m e1 show ?thesis by (auto simp add: catch_def)
  next
    case (Inl e)
    obtain r2 tr2 where f: "h e tr1 = (r2, tr2)" by (cases "h e tr1")
    then obtain ext2 where e2: "tr2 = tr1 @ ext2" "list_all P ext2"
      using assms(2) appendsD by blast
    with Inl m f e1 show ?thesis by (auto simp add: catch_def)
  qed
qed

lemma appends_acme_request:
  assumes "\<And>u d. P (SignedPost u nonce payload d)"
  shows "appends P (acme_request env url k account_url nonce payload)"
proof (rule appendsI)
  fix tr
  show "\<exists>ext. snd (acme_request env url k account_url nonce payload tr) = tr @ ext \<and> list_all P ext"
    using assms
    by (auto simp add: acme_request_def io_defs split: sum.splits json.splits http_outcome.splits)
qed

lemma appends_fetch_url:
  assumes "\<And>u. P (Fetch method u)"
  shows "appends P (fetch_url env url method return_headers)"
  using assms
  by (auto simp add: fetch_url_def intro!: appends_bnd appends_call split: json.splits http_outcome.splits)

lemma appends_acme_register:
  assumes "\<And>u d v. P (SignedPost u nonce (JObj [(''termsOfServiceAgreed'', v)]) d)"
  shows "appends P (acme_register env url k nonce)"
  using assms
  by (auto simp add: acme_register_def Let_def intro!: appends_bnd appends_acme_request split: prod.splits)

lemma appends_poll_authorization:
  assumes "\<And>u n d. P (SignedPost u n JNull d)" and "P (Sleep 2)"
  shows "appends P (poll_authorization n env auth_url k account_url nonce)"
proof (induction n arbitrary: nonce)
  case 0
  show ?case by auto
next
  case (Suc n)
  show ?case
    using assms Suc
    by (auto intro!: appends_bnd appends_acme_request appends_sleep split: prod.splits)
qed

lemma appends_poll_order:
  assumes "\<And>u n d. P (SignedPost u n JNull d)" and "P (Sleep 2)"
  shows "appends P (poll_order n env order_url k account_url nonce)"
proof (induction n arbitrary: nonce)
  case 0
  show ?case by auto
next
  case (Suc n)
  show ?case
    using assms Suc
    by (auto intro!: appends_bnd appends_acme_request appends_sleep split: prod.splits)
qed

lemma appends_stored_account_key:
  assumes "\<And>arn. P (GetSecretValue arn)"
  shows "appends P (stored_account_key env secret_arn)"
  using assms
  by (auto simp add: stored_account_key_def
      intro!: appends_catch appends_bnd appends_call split: option.splits)

lemma appends_get_or_create_account_key:
  assumes "\<And>arn. P (GetSecretValue arn)"
  shows "appends P (get_or_create_account_key env secret_arn)"
  using assms
  by (auto simp add: get_or_create_account_key_def
      intro!: appends_bnd appends_stored_account_key split: option.splits)

lemma quiet_simps [simp]:
  "quiet (GetSecretValue arn)" "quiet (Fetch m u)" "quiet (SignedPost u n JNull d)"
  "quiet (SignedPost u n (JObj []) d)"
  "quiet (SignedPost u n (JObj [(''termsOfServiceAgreed'', v)]) d)"
  "quiet (SignedPost u n (JObj [(''identifiers'', v)]) d)"
  "quiet (ChangeRecordSets z a nm val)" "quiet (GetChange c)" "quiet (Sleep k)"
  by (simp_all add: quiet_def)

lemma appends_order_and_provision: "appends quiet (order_and_provision env)"
  unfolding order_and_provision_def Let_def
  by (intro appends_bnd appends_lift appends_fetch_url appends_get_or_create_account_key
        appends_acme_register appends_acme_request appends_draw appends_call
        quiet_simps)
     (auto split: prod.splits option.splits
        intro!: appends_bnd appends_fetch_url appends_get_or_create_account_key
        appends_acme_register appends_acme_request appends_call)

lemma wait_insync_appends_snd:
  "wait_insync env change_id tr = Some y \<Longrightarrow> \<exists>ext. snd y = tr @ ext \<and> list_all quiet ext"
proof (rule wait_insync.raw_induct[where
        P = "\<lambda>env change_id tr y. \<exists>ext. snd y = tr @ ext \<and> list_all quiet ext"], goal_cases)
  case (1 wait env change_id tr y)
  show ?case
  proof (cases "get_change env (tr @ [GetChange change_id])")
    case (Inl e)
    with 1(3) show ?thesis by auto
  next
    case (Inr st)
    show ?thesis
    proof (cases "st = ''INSYNC''")
      case True
      with Inr 1(3) show ?thesis by auto
    next
      case False
      with Inr 1(3) have "wait env change_id (tr @ [GetChange change_id, Sleep 5]) = Some y"
        by simp
      then obtain ext where "snd y = (tr @ [GetChange change_id, Sleep 5]) @ ext" "list_all quiet ext"
        using 1(2) by blast
      then show ?thesis
        by (intro exI[of _ "[GetChange change_id, Sleep 5] @ ext"]) simp
    qed
  qed
qed

lemma wait_insync_appends:
  assumes "wait_insync env change_id tr = Some (r, tr')"
  shows "\<exists>ext. tr' = tr @ ext \<and> list_all quiet ext"
  using wait_insync_appends_snd[OF assms] by simp

lemma appends_validate_challenge: "appends quiet (validate_challenge env l)"
  unfolding validate_challenge_def
  by (auto intro!: appends_bnd appends_sleep appends_acme_request appends_poll_authorization
      split: prod.splits)

lemma not_put_simps [simp]:
  "\<not> is_put (SignedPost u n p d)" "\<not> is_put (ChangeRecordSets z a nm val)" "\<not> is_put (Sleep k)"
  by simp_all

lemma appends_finalize_and_download:
  "appends (\<lambda>ev. \<not> is_put ev) (finalize_and_download env l nonce5)"
  unfolding finalize_and_download_def
  by (auto intro!: appends_bnd appends_acme_request appends_poll_order appends_sleep
      split: prod.splits)

lemma appends_cleanup_txt_record:
  "appends (\<lambda>ev. \<not> is_put ev) (cleanup_txt_record env l)"
  unfolding cleanup_txt_record_def
  by (auto intro!: appends_catch appends_bnd appends_call)

lemma cleanup_txt_record_returns: "\<exists>tr'. cleanup_txt_record env l tr = (Inr (), tr')"
  by (auto simp add: cleanup_txt_record_def io_defs split: sum.splits)

lemma store_certificate_eq:
  "store_certificate env l certificate chain expires tr =
     (let put = PutSecretValue (v_secret_arn l)
                  (json_dumps (cert_data certificate chain (private_bytes env (v_cert_key l))
                     (v_domain l) expires (private_bytes env (v_account_key l))))
      in (case put_secret_value env (tr @ [put]) of
            Some e \<Rightarrow> Inl e
          | None \<Rightarrow> Inr \<lparr>statusCode = 200, out_headers = [],
                           out_body = json_dumps (JObj [(''message'', JStr ''Certificate generated''),
                                                        (''expires'', JStr expires)])\<rparr>,
          tr @ [put]))"
  by (simp add: store_certificate_def io_defs Let_def split: option.splits)

lemma quiet_not_put: "list_all quiet ext \<Longrightarrow> list_all (\<lambda>ev. \<not> is_put ev) ext"
  by (induction ext) (simp_all add: quiet_def)

lemma quiet_not_finalize: "list_all quiet ext \<Longrightarrow> list_all (\<lambda>ev. \<not> is_finalize ev) ext"
  by (induction ext) (simp_all add: quiet_def)

end
